theory Spec2Isabelle
  imports Complex_Main "HOL-Library.Multiset"
begin

section \<open>JavaScript numbers\<close>

text \<open>
  A JavaScript number is modelled as a real (arithmetic without rounding or overflow)
  or the not-a-number value. Every arithmetic operator propagates \<open>NaN\<close>, every
  comparison with \<open>NaN\<close> is false, and \<open>Math.min\<close> returns \<open>NaN\<close> as soon as one
  argument is \<open>NaN\<close>. A property that is absent from an object reads as
  \<open>undefined\<close>; it is modelled by \<open>None\<close>, and \<open>ToNumber(undefined)\<close> is \<open>NaN\<close>.
\<close>

datatype jsnum = Num real | NaN

fun jadd :: "jsnum \<Rightarrow> jsnum \<Rightarrow> jsnum" where
  "jadd (Num a) (Num b) = Num (a + b)"
| "jadd _ _ = NaN"

fun jsub :: "jsnum \<Rightarrow> jsnum \<Rightarrow> jsnum" where
  "jsub (Num a) (Num b) = Num (a - b)"
| "jsub _ _ = NaN"

fun jmul :: "jsnum \<Rightarrow> jsnum \<Rightarrow> jsnum" where
  "jmul (Num a) (Num b) = Num (a * b)"
| "jmul _ _ = NaN"

text \<open>Division is only ever used with the non-zero constant of milliseconds per day.\<close>

fun jdiv :: "jsnum \<Rightarrow> real \<Rightarrow> jsnum" where
  "jdiv (Num a) d = Num (a / d)"
| "jdiv NaN d = NaN"

fun jneg :: "jsnum \<Rightarrow> jsnum" where
  "jneg (Num a) = Num (- a)"
| "jneg NaN = NaN"

fun jexp :: "jsnum \<Rightarrow> jsnum" where
  "jexp (Num a) = Num (exp a)"
| "jexp NaN = NaN"

fun jmin :: "jsnum \<Rightarrow> jsnum \<Rightarrow> jsnum" where
  "jmin (Num a) (Num b) = Num (min a b)"
| "jmin _ _ = NaN"

fun jge :: "jsnum \<Rightarrow> jsnum \<Rightarrow> bool" where
  "jge (Num a) (Num b) = (b \<le> a)"
| "jge _ _ = False"

fun jgt :: "jsnum \<Rightarrow> jsnum \<Rightarrow> bool" where
  "jgt (Num a) (Num b) = (b < a)"
| "jgt _ _ = False"

fun to_number :: "jsnum option \<Rightarrow> jsnum" where
  "to_number None = NaN"
| "to_number (Some n) = n"

text \<open>Truthiness of a possibly absent number: \<open>undefined\<close>, \<open>NaN\<close> and \<open>0\<close> are falsy.\<close>

fun truthy :: "jsnum option \<Rightarrow> bool" where
  "truthy None = False"
| "truthy (Some NaN) = False"
| "truthy (Some (Num a)) = (a \<noteq> 0)"

text \<open>The expression \<open>v || d\<close> for a possibly absent number \<open>v\<close> and a literal \<open>d\<close>.\<close>

definition or_default :: "jsnum option \<Rightarrow> real \<Rightarrow> jsnum" where
  "or_default v d = (if truthy v then to_number v else Num d)"


section \<open>Search results and the ranking engine\<close>

text \<open>
  The fields of a stored entry that the ranking code reads. \<open>search_metadata\<close> and each
  of its three knobs may be absent.
\<close>

record search_metadata =
  boost_factor :: "jsnum option"
  recency_weight :: "jsnum option"
  user_preference_alignment :: "jsnum option"

text \<open>
  A search hit as returned by the collection's vector search. \<open>similarity\<close> and
  \<open>original_similarity\<close> are the properties \<open>$similarity\<close> and \<open>$original_similarity\<close>.
  \<open>created_at\<close> holds the time value, in milliseconds since the epoch, that
  \<open>new Date(result.created_at)\<close> computes: \<open>None\<close> when the field is absent (the date is
  then invalid), \<open>Some NaN\<close> for a value that does not parse, \<open>Some (Num t)\<close>
  otherwise. All remaining properties of the hit live in the record's extension slot,
  which the object spread \<open>{...result, ...}\<close> copies unchanged.
\<close>

record result =
  similarity :: "jsnum option"
  original_similarity :: "jsnum option"
  created_at :: "jsnum option"
  search_metadata :: "search_metadata option"

record boost_options =
  boost_recent :: bool
  boost_preferences :: bool

definition empty_metadata :: search_metadata where
  "empty_metadata =
     \<lparr>boost_factor = None, recency_weight = None, user_preference_alignment = None\<rparr>"

text \<open>\<open>result.search_metadata || {}\<close>\<close>

definition metadata_of :: "'a result_scheme \<Rightarrow> search_metadata" where
  "metadata_of r = (case search_metadata r of None \<Rightarrow> empty_metadata | Some m \<Rightarrow> m)"

text \<open>\<open>new Date(result.created_at)\<close>, as a time value.\<close>

definition date_of :: "jsnum option \<Rightarrow> jsnum" where
  "date_of c = to_number c"

definition ms_per_day :: real where
  "ms_per_day = 1000 * 60 * 60 * 24"

text \<open>\<open>(now - createdAt) / (1000 * 60 * 60 * 24)\<close>\<close>

definition daysSinceCreated :: "real \<Rightarrow> 'a result_scheme \<Rightarrow> jsnum" where
  "daysSinceCreated now r = jdiv (jsub (Num now) (date_of (created_at r))) ms_per_day"

text \<open>\<open>Math.exp(-daysSinceCreated * 0.1) * (metadata.recency_weight || 0.5)\<close>\<close>

definition recencyBoost :: "real \<Rightarrow> 'a result_scheme \<Rightarrow> jsnum" where
  "recencyBoost now r =
     jmul (jexp (jmul (jneg (daysSinceCreated now r)) (Num 0.1)))
          (or_default (recency_weight (metadata_of r)) 0.5)"

text \<open>The amount the recency step adds to the adjusted score: \<open>recencyBoost * 0.1\<close>.\<close>

definition recency_increment :: "real \<Rightarrow> 'a result_scheme \<Rightarrow> jsnum" where
  "recency_increment now r = jmul (recencyBoost now r) (Num 0.1)"

text \<open>\<open>(metadata.user_preference_alignment || 0.5) * 0.1\<close>\<close>

definition preferenceBoost :: "'a result_scheme \<Rightarrow> jsnum" where
  "preferenceBoost r =
     jmul (or_default (user_preference_alignment (metadata_of r)) 0.5) (Num 0.1)"

text \<open>
  The guard \<open>metadata.boost_factor && metadata.boost_factor !== 1.0\<close> and the
  multiplication it protects.
\<close>

definition boost_factor_applies :: "'a result_scheme \<Rightarrow> bool" where
  "boost_factor_applies r =
     (truthy (boost_factor (metadata_of r)) \<and> boost_factor (metadata_of r) \<noteq> Some (Num 1))"

definition apply_boost_factor :: "'a result_scheme \<Rightarrow> jsnum \<Rightarrow> jsnum" where
  "apply_boost_factor r adjusted =
     (if boost_factor_applies r
      then jmul adjusted (to_number (boost_factor (metadata_of r)))
      else adjusted)"

text \<open>The adjusted score before the final cap, following the three steps in order.\<close>

definition adjustedSimilarity :: "real \<Rightarrow> boost_options \<Rightarrow> 'a result_scheme \<Rightarrow> jsnum" where
  "adjustedSimilarity now options r =
     (let a0 = to_number (similarity r);
          a1 = (if boost_recent options then jadd a0 (recency_increment now r) else a0);
          a2 = (if boost_preferences options then jadd a1 (preferenceBoost r) else a1)
      in apply_boost_factor r a2)"

text \<open>The callback of \<open>results.map\<close> in \<open>applyBoosting\<close>.\<close>

definition boost_result ::
  "real \<Rightarrow> boost_options \<Rightarrow> 'a result_scheme \<Rightarrow> 'a result_scheme" where
  "boost_result now options r =
     r\<lparr>similarity := Some (jmin (adjustedSimilarity now options r) (Num 1)),
       original_similarity := similarity r\<rparr>"

text \<open>
  \<open>Array.prototype.sort\<close> with a comparator is a stable sort: \<open>a\<close> is placed after
  \<open>b\<close> only when the comparator returns a positive number for \<open>(a, b)\<close>; a zero or
  \<open>NaN\<close> result keeps the two in their current order. It is modelled as a stable
  insertion sort. For a comparator free of \<open>NaN\<close> every stable sort yields this
  list; with \<open>NaN\<close> scores ECMAScript leaves the order to the engine, and the model
  fixes the one insertion produces.
\<close>

fun insert_sorted :: "('a \<Rightarrow> 'a \<Rightarrow> jsnum) \<Rightarrow> 'a \<Rightarrow> 'a list \<Rightarrow> 'a list" where
  "insert_sorted cmp x [] = [x]"
| "insert_sorted cmp x (y # ys) =
     (if jgt (cmp x y) (Num 0) then y # insert_sorted cmp x ys else x # y # ys)"

definition js_sort :: "('a \<Rightarrow> 'a \<Rightarrow> jsnum) \<Rightarrow> 'a list \<Rightarrow> 'a list" where
  "js_sort cmp xs = foldr (insert_sorted cmp) xs []"

text \<open>\<open>(a, b) => b.$similarity - a.$similarity\<close>\<close>

definition by_similarity_desc :: "'a result_scheme \<Rightarrow> 'a result_scheme \<Rightarrow> jsnum" where
  "by_similarity_desc a b = jsub (to_number (similarity b)) (to_number (similarity a))"

definition applyBoosting ::
  "real \<Rightarrow> boost_options \<Rightarrow> 'a result_scheme list \<Rightarrow> 'a result_scheme list" where
  "applyBoosting now options rs = js_sort by_similarity_desc (map (boost_result now options) rs)"

text \<open>
  The part of the search query that \<open>searchSimilar\<close> uses after the vector search has
  returned; each of the three fields has a destructuring default. The two flags of the
  query carry the prefix \<open>q_\<close> to keep them apart from the fields of the options
  record, and the \<open>similarity_threshold\<close> of the response is \<open>threshold_applied\<close>.
\<close>

record query_data =
  similarity_threshold :: "real option"
  q_boost_recent :: "bool option"
  q_boost_preferences :: "bool option"

record 'a search_response =
  results :: "'a result_scheme list"
  total :: nat
  threshold_applied :: real
  boost_applied :: bool

definition threshold_of :: "'q query_data_scheme \<Rightarrow> real" where
  "threshold_of q = (case similarity_threshold q of None \<Rightarrow> 0.7 | Some t \<Rightarrow> t)"

definition options_of :: "'q query_data_scheme \<Rightarrow> boost_options" where
  "options_of q =
     \<lparr>boost_recent = (case q_boost_recent q of None \<Rightarrow> False | Some b \<Rightarrow> b),
      boost_preferences = (case q_boost_preferences q of None \<Rightarrow> False | Some b \<Rightarrow> b)\<rparr>"

text \<open>
  \<open>searchSimilar\<close> from the point where the collection has answered: \<open>found\<close> is the
  array that \<open>collection.find(...).toArray()\<close> resolved to.
\<close>

definition searchSimilar ::
  "real \<Rightarrow> 'q query_data_scheme \<Rightarrow> 'a result_scheme list \<Rightarrow> 'a search_response" where
  "searchSimilar now q found =
     (let options = options_of q;
          filteredResults =
            filter (\<lambda>r. jge (to_number (similarity r)) (Num (threshold_of q))) found;
          processedResults =
            (if boost_recent options \<or> boost_preferences options
             then applyBoosting now options filteredResults
             else filteredResults)
      in \<lparr>results = processedResults,
          total = length processedResults,
          threshold_applied = threshold_of q,
          boost_applied = (boost_recent options \<or> boost_preferences options)\<rparr>)"


section \<open>Documents and the validation schemas\<close>

text \<open>
  Request bodies and stored documents are JSON values. An object is a finite map from
  property names to values; a property that is absent reads as \<open>undefined\<close>, modelled by
  \<open>None\<close>. The order of an object's keys is not modelled.
\<close>

datatype json =
    JNull
  | JBool bool
  | JNum real
  | JStr string
  | JArr "json list"
  | JObj "string \<Rightarrow> json option"

type_synonym obj = "string \<Rightarrow> json option"

text \<open>
  A violation is one entry of Joi's \<open>error.details\<close>: the path of the offending value
  (object keys and array indices; the middleware joins it with dots into \<open>field\<close>) and
  the error type together with the limit that Joi's message for that type prints.
  So \<open>ArrayLength 768\<close> at path \<open>primary_embedding\<close> is the detail whose message
  names the field and the number 768, while \<open>ArrayBase\<close> and \<open>NumberBase\<close> are the
  type errors, whose messages carry no length.
\<close>

datatype seg = Key string | Index nat

datatype vcode =
    AnyRequired
  | StringBase | StringEmpty | StringMax nat | StringGuid
  | NumberBase | NumberUnsafe | NumberInteger | NumberMin real | NumberMax real
  | BooleanBase
  | ArrayBase | ArrayIncludesRequiredUnknowns | ArrayLength nat | ArrayMax nat
  | ObjectBase

type_synonym violation = "seg list \<times> vcode"

text \<open>
  The Joi schemas the service declares, as data. The arguments follow the builder calls:
  \<^item> \<open>SString max uuid\<close> is \<open>Joi.string()\<close> with an optional \<open>.max(n)\<close> and
    \<open>.uuid()\<close>;
  \<^item> \<open>SNumber integer min max\<close> is \<open>Joi.number()\<close> with \<open>.integer()\<close>,
    \<open>.min(l)\<close>, \<open>.max(u)\<close>;
  \<^item> \<open>SBoolean\<close> is \<open>Joi.boolean()\<close>;
  \<^item> \<open>SArray item presence length max\<close> is \<open>Joi.array().items(item)\<close>, the
    presence telling whether the item schema is \<open>.required()\<close>, with \<open>.length(n)\<close>
    and \<open>.max(n)\<close>;
  \<^item> \<open>SObject children\<close> is \<open>Joi.object({...})\<close>, each key with \<open>.required()\<close> or
    \<open>.optional()\<close>.
\<close>

datatype presence = Required | Optional

datatype schema =
    SString "nat option" bool
  | SNumber bool "real option" "real option"
  | SBoolean
  | SArray schema presence "nat option" "nat option"
  | SObject "(string \<times> presence \<times> schema) list"

text \<open>
  Joi is a library outside the repository. Two of its behaviours that the schemas
  rely on are parameters of the model:
  \<^item> \<open>guid\<close>: the strings that \<open>.uuid()\<close> accepts;
  \<^item> \<open>convert\<close>: what the conversion step does with a string found where the schema
    declares a number, a boolean, an array or an object. The middleware leaves the
    option \<open>convert\<close> at its default, so a numeric string in the place of a number is
    turned into that number before the rules run. A conversion leaves the string as it
    is, replaces it by a value, or fails with an error of its own.
  Values that are not strings are never converted, and nothing is converted into a
  string.
\<close>

datatype kind = KNumber | KBoolean | KArray | KObject

datatype conversion = Unconverted | Converted json | ConversionError vcode

record library =
  guid :: "string \<Rightarrow> bool"
  convert :: "kind \<Rightarrow> string \<Rightarrow> conversion"

definition converted :: "library \<Rightarrow> kind \<Rightarrow> json \<Rightarrow> vcode + json" where
  "converted L k v =
     (case v of
        JStr s \<Rightarrow>
          (case convert L k s of
             Unconverted \<Rightarrow> Inr v
           | Converted w \<Rightarrow> Inr w
           | ConversionError e \<Rightarrow> Inl e)
      | _ \<Rightarrow> Inr v)"

text \<open>
  Joi's default pattern for \<open>.uuid()\<close>: an optional opening bracket, hexadecimal
  digits in groups of 8, 4, 4, 4 and 12, an optional separator \<open>-\<close> or \<open>:\<close> after the
  first group that may be repeated after the next three, and the closing bracket that
  matches the opening one. It is the \<open>guid\<close> of the library used in the examples.
\<close>

definition is_hex :: "char \<Rightarrow> bool" where
  "is_hex c = (c \<in> set ''0123456789abcdefABCDEF'')"

definition hex_group :: "nat \<Rightarrow> string \<Rightarrow> bool" where
  "hex_group n s = (n \<le> length s \<and> list_all is_hex (take n s))"

definition after_bracket :: "string \<Rightarrow> string" where
  "after_bracket s =
     (case s of [] \<Rightarrow> s | c # r \<Rightarrow> if c \<in> set ''[{('' then r else s)"

definition separator_of :: "string \<Rightarrow> char option" where
  "separator_of s =
     (case s of [] \<Rightarrow> None | c # r \<Rightarrow> if c = CHR ''-'' \<or> c = CHR '':'' then Some c else None)"

definition after_separator :: "char option \<Rightarrow> string \<Rightarrow> string" where
  "after_separator sep s =
     (case s of [] \<Rightarrow> s | c # r \<Rightarrow> if sep = Some c then r else s)"

definition brackets_match :: "string \<Rightarrow> string \<Rightarrow> bool" where
  "brackets_match s closing =
     (case s of
        [] \<Rightarrow> closing = []
      | c # r \<Rightarrow>
          if c = CHR ''['' then closing = '']''
          else if c = CHR ''{'' then closing = ''}''
          else if c = CHR ''('' then closing = '')''
          else closing = [])"

definition is_guid :: "string \<Rightarrow> bool" where
  "is_guid s =
     (let s1 = after_bracket s;
          s2 = drop 8 s1;
          sep = separator_of s2;
          s3 = after_separator sep s2;
          s4 = after_separator sep (drop 4 s3);
          s5 = after_separator sep (drop 4 s4);
          s6 = after_separator sep (drop 4 s5)
      in hex_group 8 s1 \<and> hex_group 4 s3 \<and> hex_group 4 s4 \<and> hex_group 4 s5
         \<and> hex_group 12 s6 \<and> brackets_match s (drop 12 s6))"

definition max_safe_integer :: real where
  "max_safe_integer = 2 ^ 53 - 1"

text \<open>
  Validation with the options the middleware passes: \<open>abortEarly: false\<close> collects the
  violations of every key and every rule; a value of the wrong type (and an empty
  string, a number outside the safe range, a failed conversion) yields that one
  violation and ends the checks of that value. An array whose item schema is required
  must hold at least one matching item.
\<close>

definition string_checks :: "library \<Rightarrow> nat option \<Rightarrow> bool \<Rightarrow> seg list \<Rightarrow> json \<Rightarrow> violation list" where
  "string_checks L mx uuid p v =
     (case v of
        JStr s \<Rightarrow>
          if s = [] then [(p, StringEmpty)]
          else (case mx of None \<Rightarrow> [] | Some n \<Rightarrow> if n < length s then [(p, StringMax n)] else [])
             @ (if uuid \<and> \<not> guid L s then [(p, StringGuid)] else [])
      | _ \<Rightarrow> [(p, StringBase)])"

definition number_checks :: "bool \<Rightarrow> real option \<Rightarrow> real option \<Rightarrow> seg list \<Rightarrow> json \<Rightarrow> violation list" where
  "number_checks whole mn mx p v =
     (case v of
        JNum x \<Rightarrow>
          if max_safe_integer < \<bar>x\<bar> then [(p, NumberUnsafe)]
          else (if whole \<and> of_int \<lfloor>x\<rfloor> \<noteq> x then [(p, NumberInteger)] else [])
             @ (case mn of None \<Rightarrow> [] | Some l \<Rightarrow> if x < l then [(p, NumberMin l)] else [])
             @ (case mx of None \<Rightarrow> [] | Some u \<Rightarrow> if u < x then [(p, NumberMax u)] else [])
      | _ \<Rightarrow> [(p, NumberBase)])"

text \<open>
  The loop over the items of an array: item \<open>i\<close> is checked at the path extended by
  \<open>i\<close>, and a required item schema is missed when no item satisfies it.
\<close>

fun item_violations ::
  "(seg list \<Rightarrow> json \<Rightarrow> violation list) \<Rightarrow> seg list \<Rightarrow> nat \<Rightarrow> json list \<Rightarrow> violation list" where
  "item_violations check p i [] = []"
| "item_violations check p i (x # xs) =
     check (p @ [Index i]) x @ item_violations check p (Suc i) xs"

fun no_item_matches ::
  "(seg list \<Rightarrow> json \<Rightarrow> violation list) \<Rightarrow> seg list \<Rightarrow> nat \<Rightarrow> json list \<Rightarrow> bool" where
  "no_item_matches check p i [] = True"
| "no_item_matches check p i (x # xs) =
     (check (p @ [Index i]) x \<noteq> [] \<and> no_item_matches check p (Suc i) xs)"

fun violations :: "library \<Rightarrow> schema \<Rightarrow> seg list \<Rightarrow> json \<Rightarrow> violation list" where
  "violations L (SString mx uuid) p v = string_checks L mx uuid p v"
| "violations L (SNumber whole mn mx) p v =
     (case converted L KNumber v of
        Inl e \<Rightarrow> [(p, e)]
      | Inr w \<Rightarrow> number_checks whole mn mx p w)"
| "violations L SBoolean p v =
     (case converted L KBoolean v of
        Inl e \<Rightarrow> [(p, e)]
      | Inr w \<Rightarrow> (case w of JBool b \<Rightarrow> [] | _ \<Rightarrow> [(p, BooleanBase)]))"
| "violations L (SArray item pres len mx) p v =
     (case converted L KArray v of
        Inl e \<Rightarrow> [(p, e)]
      | Inr w \<Rightarrow>
          (case w of
             JArr xs \<Rightarrow>
               item_violations (violations L item) p 0 xs
               @ (if pres = Required \<and> no_item_matches (violations L item) p 0 xs
                  then [(p, ArrayIncludesRequiredUnknowns)] else [])
               @ (case len of None \<Rightarrow> []
                  | Some n \<Rightarrow> if length xs \<noteq> n then [(p, ArrayLength n)] else [])
               @ (case mx of None \<Rightarrow> []
                  | Some n \<Rightarrow> if n < length xs then [(p, ArrayMax n)] else [])
           | _ \<Rightarrow> [(p, ArrayBase)]))"
| "violations L (SObject children) p v =
     (case converted L KObject v of
        Inl e \<Rightarrow> [(p, e)]
      | Inr w \<Rightarrow>
          (case w of
             JObj m \<Rightarrow>
               concat (map (\<lambda>(k, pres, s).
                         case m k of
                           None \<Rightarrow> if pres = Required then [(p @ [Key k], AnyRequired)] else []
                         | Some x \<Rightarrow> violations L s (p @ [Key k]) x) children)
           | _ \<Rightarrow> [(p, ObjectBase)]))"

text \<open>
  The validated value: strings are replaced by what they convert to, and
  \<open>stripUnknown: true\<close> keeps only the keys the schema declares.
\<close>

fun canonical :: "library \<Rightarrow> schema \<Rightarrow> json \<Rightarrow> json" where
  "canonical L (SString mx uuid) v = v"
| "canonical L (SNumber whole mn mx) v =
     (case converted L KNumber v of Inl e \<Rightarrow> v | Inr w \<Rightarrow> w)"
| "canonical L SBoolean v =
     (case converted L KBoolean v of Inl e \<Rightarrow> v | Inr w \<Rightarrow> w)"
| "canonical L (SArray item pres len mx) v =
     (case converted L KArray v of
        Inl e \<Rightarrow> v
      | Inr w \<Rightarrow> (case w of JArr xs \<Rightarrow> JArr (map (canonical L item) xs) | _ \<Rightarrow> w))"
| "canonical L (SObject children) v =
     (case converted L KObject v of
        Inl e \<Rightarrow> v
      | Inr w \<Rightarrow>
          (case w of
             JObj m \<Rightarrow>
               JObj (foldr (\<lambda>(k, pres, s) acc.
                              case m k of None \<Rightarrow> acc | Some x \<Rightarrow> acc(k \<mapsto> canonical L s x))
                           children Map.empty)
           | _ \<Rightarrow> w))"

fun obj_of :: "json \<Rightarrow> obj" where
  "obj_of (JObj m) = m"
| "obj_of _ = Map.empty"

text \<open>
  The middleware \<open>validate(schema)\<close>: \<open>Inl\<close> is the 400 response with the details,
  \<open>Inr\<close> the value that replaces \<open>req.body\<close>.
\<close>

definition validate :: "library \<Rightarrow> schema \<Rightarrow> obj \<Rightarrow> violation list + obj" where
  "validate L schema body =
     (let details = violations L schema [] (JObj body)
      in if details \<noteq> [] then Inl details else Inr (obj_of (canonical L schema (JObj body))))"

definition createSemanticSearchSchema :: schema where
  "createSemanticSearchSchema = SObject
     [(''user_id'', Required, SString None True),
      (''entry_id'', Required, SString None True),
      (''content_type'', Required, SString (Some 10000) False),
      (''message_type'', Optional, SString None False),
      (''title'', Required, SString (Some 1000) False),
      (''content'', Required, SString None False),
      (''session_id'', Required, SString None True),
      (''conversation_context'', Optional, SString (Some 1000) False),
      (''primary_embedding'', Required, SArray (SNumber False None None) Required (Some 768) None),
      (''created_at'', Required, SString None False),
      (''updated_at'', Required, SString None False),
      (''lightweight_embedding'', Optional,
         SArray (SNumber False None None) Required (Some 384) None),
      (''text_length'', Optional, SNumber True (Some 0) None),
      (''processing_time_ms'', Optional, SNumber False (Some 0) None),
      (''model_version'', Optional, SString None False),
      (''tags'', Required, SArray (SString (Some 100) False) Optional None (Some 20)),
      (''emotion_context'', Optional, SObject
         [(''dominant_emotion'', Optional, SString None False),
          (''intensity'', Optional, SNumber False (Some 0) (Some 1)),
          (''emotions'', Optional, SObject
             [(''joy'', Optional, SNumber False (Some 0) (Some 1)),
              (''sadness'', Optional, SNumber False (Some 0) (Some 1)),
              (''anger'', Optional, SNumber False (Some 0) (Some 1)),
              (''fear'', Optional, SNumber False (Some 0) (Some 1)),
              (''surprise'', Optional, SNumber False (Some 0) (Some 1)),
              (''disgust'', Optional, SNumber False (Some 0) (Some 1)),
              (''anticipation'', Optional, SNumber False (Some 0) (Some 1)),
              (''trust'', Optional, SNumber False (Some 0) (Some 1))])]),
      (''linked_entities'', Required, SObject
         [(''people'', Required, SArray (SString None False) Optional None None),
          (''locations'', Required, SArray (SString None False) Optional None None),
          (''events'', Required, SArray (SString None False) Optional None None),
          (''topics'', Required, SArray (SString None False) Optional None None)]),
      (''temporal_context'', Optional, SObject
         [(''hour_of_day'', Optional, SNumber True (Some 0) (Some 23)),
          (''day_of_week'', Optional, SNumber True (Some 0) (Some 6)),
          (''is_weekend'', Optional, SBoolean)]),
      (''search_metadata'', Optional, SObject
         [(''boost_factor'', Required, SNumber False (Some 0) None),
          (''recency_weight'', Required, SNumber False (Some 0) None),
          (''user_preference_alignment'', Required, SNumber False (Some 0) None)])]"

text \<open>The replacement schema lists the same keys with the same rules as the create schema.\<close>

definition updateSemanticSearchSchema :: schema where
  "updateSemanticSearchSchema = SObject
     [(''user_id'', Required, SString None True),
      (''entry_id'', Required, SString None True),
      (''content_type'', Required, SString (Some 10000) False),
      (''message_type'', Optional, SString None False),
      (''title'', Required, SString (Some 1000) False),
      (''content'', Required, SString None False),
      (''session_id'', Required, SString None True),
      (''conversation_context'', Optional, SString (Some 1000) False),
      (''primary_embedding'', Required, SArray (SNumber False None None) Required (Some 768) None),
      (''created_at'', Required, SString None False),
      (''updated_at'', Required, SString None False),
      (''lightweight_embedding'', Optional,
         SArray (SNumber False None None) Required (Some 384) None),
      (''text_length'', Optional, SNumber True (Some 0) None),
      (''processing_time_ms'', Optional, SNumber False (Some 0) None),
      (''model_version'', Optional, SString None False),
      (''tags'', Required, SArray (SString (Some 100) False) Optional None (Some 20)),
      (''emotion_context'', Optional, SObject
         [(''dominant_emotion'', Optional, SString None False),
          (''intensity'', Optional, SNumber False (Some 0) (Some 1)),
          (''emotions'', Optional, SObject
             [(''joy'', Optional, SNumber False (Some 0) (Some 1)),
              (''sadness'', Optional, SNumber False (Some 0) (Some 1)),
              (''anger'', Optional, SNumber False (Some 0) (Some 1)),
              (''fear'', Optional, SNumber False (Some 0) (Some 1)),
              (''surprise'', Optional, SNumber False (Some 0) (Some 1)),
              (''disgust'', Optional, SNumber False (Some 0) (Some 1)),
              (''anticipation'', Optional, SNumber False (Some 0) (Some 1)),
              (''trust'', Optional, SNumber False (Some 0) (Some 1))])]),
      (''linked_entities'', Required, SObject
         [(''people'', Required, SArray (SString None False) Optional None None),
          (''locations'', Required, SArray (SString None False) Optional None None),
          (''events'', Required, SArray (SString None False) Optional None None),
          (''topics'', Required, SArray (SString None False) Optional None None)]),
      (''temporal_context'', Optional, SObject
         [(''hour_of_day'', Optional, SNumber True (Some 0) (Some 23)),
          (''day_of_week'', Optional, SNumber True (Some 0) (Some 6)),
          (''is_weekend'', Optional, SBoolean)]),
      (''search_metadata'', Optional, SObject
         [(''boost_factor'', Required, SNumber False (Some 0) None),
          (''recency_weight'', Required, SNumber False (Some 0) None),
          (''user_preference_alignment'', Required, SNumber False (Some 0) None)])]"

definition paramsIdSchema :: schema where
  "paramsIdSchema = SObject [(''id'', Required, SString None True)]"


section \<open>The entry service and its routes\<close>

text \<open>
  The collection is the storage collaborator. It is modelled as the list of its
  documents: \<open>findOne({_id: id})\<close> returns the first document with that \<open>_id\<close>,
  \<open>insertOne\<close> appends, and \<open>replaceOne({_id: id}, doc)\<close> puts \<open>doc\<close> in the place of
  the first document with that \<open>_id\<close> and reports how many documents matched. What the
  collection does when asked to replace a document by one that carries another \<open>_id\<close>
  is decided by no code of the repository: there \<open>replaceOne\<close> has no result in the
  model.
\<close>

type_synonym collection = "obj list"

definition findOne :: "collection \<Rightarrow> string \<Rightarrow> obj option" where
  "findOne coll ident = find (\<lambda>d. d ''_id'' = Some (JStr ident)) coll"

fun replace_first :: "collection \<Rightarrow> string \<Rightarrow> obj \<Rightarrow> collection \<times> nat" where
  "replace_first [] ident doc = ([], 0)"
| "replace_first (d # ds) ident doc =
     (if d ''_id'' = Some (JStr ident) then (doc # ds, 1)
      else (d # fst (replace_first ds ident doc), snd (replace_first ds ident doc)))"

definition replaceOne :: "collection \<Rightarrow> string \<Rightarrow> obj \<Rightarrow> (collection \<times> nat) option" where
  "replaceOne coll ident doc =
     (if doc ''_id'' = Some (JStr ident) then Some (replace_first coll ident doc) else None)"

text \<open>
  \<open>createEntry\<close>: the entry is \<open>{_id: uuidv4(), ...entryData}\<close>, the fresh identifier
  being a parameter; the returned data is \<open>{id: entry._id, ...entry}\<close>.
\<close>

definition createEntry :: "string \<Rightarrow> collection \<Rightarrow> obj \<Rightarrow> collection \<times> obj" where
  "createEntry fresh coll entryData =
     (let entry = [''_id'' \<mapsto> JStr fresh] ++ entryData
      in (coll @ [entry], (Map.empty(''id'' := entry ''_id'')) ++ entry))"

text \<open>
  The document \<open>updateEntry\<close> hands to \<open>replaceOne\<close>:
  \<open>{_id: id, ...newEntryData, created_at: existingEntry.created_at}\<close>. In an object
  literal a later property overrides an earlier one of the same name.
\<close>

definition replacementEntry :: "string \<Rightarrow> obj \<Rightarrow> obj \<Rightarrow> obj" where
  "replacementEntry ident newEntryData existingEntry =
     ([''_id'' \<mapsto> JStr ident] ++ newEntryData)(''created_at'' := existingEntry ''created_at'')"

text \<open>
  The outcomes of \<open>updateEntry\<close>: the entry is not found, the entry is replaced and
  the document read back is returned, or the collection was handed a document with
  another \<open>_id\<close> and the outcome lies outside the model.
\<close>

datatype update_result = EntryNotFound | Replaced "obj option" | OutsideModel

definition updateEntry :: "collection \<Rightarrow> string \<Rightarrow> obj \<Rightarrow> collection \<times> update_result" where
  "updateEntry coll ident newEntryData =
     (case findOne coll ident of
        None \<Rightarrow> (coll, EntryNotFound)
      | Some existingEntry \<Rightarrow>
          (case replaceOne coll ident (replacementEntry ident newEntryData existingEntry) of
             None \<Rightarrow> (coll, OutsideModel)
           | Some r \<Rightarrow>
               if snd r = 0 then (fst r, EntryNotFound)
               else (fst r, Replaced (findOne (fst r) ident))))"

datatype 'a http =
  Status400 "violation list" | Status404 | Status200 'a | Status201 'a | NoModelledResponse

text \<open>\<open>POST /entries\<close> and \<open>PUT /entries/:id\<close>, each behind its validation middleware.\<close>

definition post_entries ::
  "library \<Rightarrow> string \<Rightarrow> collection \<Rightarrow> obj \<Rightarrow> collection \<times> obj http" where
  "post_entries L fresh coll body =
     (case validate L createSemanticSearchSchema body of
        Inl details \<Rightarrow> (coll, Status400 details)
      | Inr entryData \<Rightarrow>
          (fst (createEntry fresh coll entryData),
           Status201 (snd (createEntry fresh coll entryData))))"

definition put_entries ::
  "library \<Rightarrow> collection \<Rightarrow> string \<Rightarrow> obj \<Rightarrow> collection \<times> obj option http" where
  "put_entries L coll ident body =
     (case validate L paramsIdSchema [''id'' \<mapsto> JStr ident] of
        Inl details \<Rightarrow> (coll, Status400 details)
      | Inr params \<Rightarrow>
          (case validate L updateSemanticSearchSchema body of
             Inl details \<Rightarrow> (coll, Status400 details)
           | Inr newEntryData \<Rightarrow>
               (case updateEntry coll ident newEntryData of
                  (coll', EntryNotFound) \<Rightarrow> (coll', Status404)
                | (coll', Replaced updatedEntry) \<Rightarrow> (coll', Status200 updatedEntry)
                | (coll', OutsideModel) \<Rightarrow> (coll', NoModelledResponse))))"

text \<open>
  The library of the worked examples: Joi's default pattern for identifiers, and no
  conversion. The example bodies hold numbers, arrays and objects wherever the schema
  declares them, so no conversion arises in them; the theorems hold for every library.
\<close>

definition example_library :: library where
  "example_library = \<lparr>guid = is_guid, convert = (\<lambda>k s. Unconverted)\<rparr>"

text \<open>
  A complete request body in the shape of the test helper \<open>generateMockSemanticEntry\<close>,
  with well-formed identifiers; the two timestamps and the search metadata are left
  open.
\<close>

definition mockSemanticEntry :: "string \<Rightarrow> string \<Rightarrow> obj \<Rightarrow> obj" where
  "mockSemanticEntry created updated metadata =
     [''user_id'' \<mapsto> JStr ''123e4567-e89b-12d3-a456-426614174000'',
      ''entry_id'' \<mapsto> JStr ''123e4567-e89b-12d3-a456-426614174001'',
      ''content_type'' \<mapsto> JStr ''journal_entry'',
      ''title'' \<mapsto> JStr ''Test Entry'',
      ''content'' \<mapsto> JStr ''This is a test semantic entry for testing purposes.'',
      ''session_id'' \<mapsto> JStr ''123e4567-e89b-12d3-a456-426614174002'',
      ''primary_embedding'' \<mapsto> JArr (replicate 768 (JNum 0.5)),
      ''created_at'' \<mapsto> JStr created,
      ''updated_at'' \<mapsto> JStr updated,
      ''tags'' \<mapsto> JArr [JStr ''test'', JStr ''semantic''],
      ''linked_entities'' \<mapsto> JObj
         [''people'' \<mapsto> JArr [JStr ''Test Person''],
          ''locations'' \<mapsto> JArr [JStr ''Test Location''],
          ''events'' \<mapsto> JArr [JStr ''test-event-id''],
          ''topics'' \<mapsto> JArr [JStr ''testing'']],
      ''search_metadata'' \<mapsto> JObj metadata]"

text \<open>
  The order of two timestamps written in the same ISO 8601 UTC format, which is the
  order of the strings character by character.
\<close>

fun timestamp_le :: "string \<Rightarrow> string \<Rightarrow> bool" where
  "timestamp_le [] t = True"
| "timestamp_le (c # s) [] = False"
| "timestamp_le (c # s) (d # t) =
     ((of_char c :: nat) < of_char d \<or> (c = d \<and> timestamp_le s t))"


section \<open>Properties of the ranking engine\<close>

lemma mset_insert_sorted: "mset (insert_sorted cmp x ys) = add_mset x (mset ys)"
  by (induction ys) auto

lemma mset_js_sort: "mset (js_sort cmp xs) = mset xs"
  by (induction xs) (auto simp: js_sort_def mset_insert_sorted)

lemma set_js_sort: "set (js_sort cmp xs) = set xs"
  using mset_js_sort [of cmp xs] by (metis set_mset_mset)

lemma length_js_sort: "length (js_sort cmp xs) = length xs"
  using mset_js_sort [of cmp xs] by (metis size_mset)

lemma jge_to_number:
  "jge (to_number s) (Num t) \<longleftrightarrow> (\<exists>x. s = Some (Num x) \<and> t \<le> x)"
  by (cases s; cases "to_number s") auto

lemma js_sort_Nil: "js_sort cmp [] = []"
  by (simp add: js_sort_def)

lemma applyBoosting_Nil: "applyBoosting now options [] = []"
  by (simp add: applyBoosting_def js_sort_Nil)

lemma length_applyBoosting: "length (applyBoosting now options rs) = length rs"
  by (simp add: applyBoosting_def length_js_sort)

lemma similarity_boost_result:
  "similarity (boost_result now options r) =
   Some (jmin (adjustedSimilarity now options r) (Num 1))"
  by (simp add: boost_result_def)

lemma filter_threshold_eq:
  "filter (\<lambda>r. jge (to_number (similarity r)) (Num t)) found =
   filter (\<lambda>r. \<exists>x. similarity r = Some (Num x) \<and> t \<le> x) found"
  by (simp add: jge_to_number)

lemma insert_sorted_rel:
  "list_all2 R ys zs \<Longrightarrow> R x z \<Longrightarrow>
   \<exists>ys'. mset ys' = add_mset x (mset ys) \<and> list_all2 R ys' (insert_sorted cmp z zs)"
proof (induction zs arbitrary: ys)
  case Nil
  then have "mset [x] = add_mset x (mset ys) \<and> list_all2 R [x] (insert_sorted cmp z [])"
    by simp
  then show ?case by blast
next
  case (Cons z' zs)
  from Cons.prems(1) obtain y ys0 where ys: "ys = y # ys0" "R y z'" "list_all2 R ys0 zs"
    by (auto simp: list_all2_Cons2)
  show ?case
  proof (cases "jgt (cmp z z') (Num 0)")
    case True
    from Cons.IH [OF ys(3) Cons.prems(2)] obtain ys1 where
      ys1: "mset ys1 = add_mset x (mset ys0)" "list_all2 R ys1 (insert_sorted cmp z zs)"
      by blast
    have "mset (y # ys1) = add_mset x (mset ys)"
      using ys1(1) ys(1) by simp
    moreover have "list_all2 R (y # ys1) (insert_sorted cmp z (z' # zs))"
      using True ys(2) ys1(2) by simp
    ultimately show ?thesis by blast
  next
    case False
    have "mset (x # ys) = add_mset x (mset ys)" by simp
    moreover have "list_all2 R (x # ys) (insert_sorted cmp z (z' # zs))"
      using False Cons.prems by simp
    ultimately show ?thesis by blast
  qed
qed

lemma js_sort_map_rel:
  assumes "\<And>x. R x (f x)"
  shows "\<exists>ys. mset ys = mset xs \<and> list_all2 R ys (js_sort cmp (map f xs))"
proof (induction xs)
  case Nil
  show ?case by (simp add: js_sort_def)
next
  case (Cons x xs)
  then obtain ys where ys: "mset ys = mset xs" "list_all2 R ys (js_sort cmp (map f xs))"
    by blast
  from insert_sorted_rel [OF ys(2) assms, of x cmp] obtain ys' where
    "mset ys' = add_mset x (mset ys)"
    "list_all2 R ys' (insert_sorted cmp (f x) (js_sort cmp (map f xs)))"
    by blast
  then show ?case
    using ys(1) by (auto simp: js_sort_def)
qed

text \<open>
  Claim C1. Let \<open>t\<close> be the threshold of the query: its \<open>similarity_threshold\<close> when
  the query carries one, 0.7 otherwise. \<open>searchSimilar\<close> keeps exactly the hits whose raw
  similarity is a number greater than or equal to \<open>t\<close>. When the query sets neither
  \<open>boost_recent\<close> nor \<open>boost_preferences\<close> to true, the survivors are returned as
  they are, in the order received; when it sets one of them, the results correspond one
  to one to the survivors, each result keeping the fields of its hit and reporting the
  hit's raw similarity as original similarity. In both cases the reported total is the
  number of survivors and the reported threshold is \<open>t\<close>, and an empty candidate list
  gives an empty result with total 0.
\<close>

theorem searchSimilar_threshold_cut:
  fixes found :: "'a result_scheme list"
  assumes "similarity_threshold q = Some t \<or> (similarity_threshold q = None \<and> t = 0.7)"
  shows "(q_boost_recent q \<noteq> Some True \<and> q_boost_preferences q \<noteq> Some True \<longrightarrow>
      results (searchSimilar now q found) =
        filter (\<lambda>r. \<exists>x. similarity r = Some (Num x) \<and> t \<le> x) found
      \<and> \<not> boost_applied (searchSimilar now q found))
   \<and> (q_boost_recent q = Some True \<or> q_boost_preferences q = Some True \<longrightarrow>
      (\<exists>ys. mset ys = mset (filter (\<lambda>r. \<exists>x. similarity r = Some (Num x) \<and> t \<le> x) found)
        \<and> list_all2 (\<lambda>r out. original_similarity out = similarity r
                          \<and> created_at out = created_at r
                          \<and> search_metadata out = search_metadata r
                          \<and> result.more out = result.more r)
            ys (results (searchSimilar now q found)))
      \<and> boost_applied (searchSimilar now q found))
   \<and> total (searchSimilar now q found) =
       length (filter (\<lambda>r. \<exists>x. similarity r = Some (Num x) \<and> t \<le> x) found)
   \<and> total (searchSimilar now q found) = length (results (searchSimilar now q found))
   \<and> threshold_applied (searchSimilar now q found) = t
   \<and> results (searchSimilar now q ([] :: 'a result_scheme list)) = []
   \<and> total (searchSimilar now q ([] :: 'a result_scheme list)) = 0"
proof -
  let ?kept = "filter (\<lambda>r. \<exists>x. similarity r = Some (Num x) \<and> t \<le> x) found"
  let ?same = "\<lambda>r out. original_similarity out = similarity r
                          \<and> created_at out = created_at r
                          \<and> search_metadata out = search_metadata r
                          \<and> result.more out = result.more r"
  have t: "threshold_of q = t"
    using assms by (auto simp: threshold_of_def)
  have flags: "(boost_recent (options_of q) \<or> boost_preferences (options_of q))
               = (q_boost_recent q = Some True \<or> q_boost_preferences q = Some True)"
    by (cases "q_boost_recent q"; cases "q_boost_preferences q") (simp_all add: options_of_def)
  have kept: "filter (\<lambda>r. jge (to_number (similarity r)) (Num t)) found = ?kept"
    by (rule filter_threshold_eq)
  have boosted: "\<exists>ys. mset ys = mset ?kept
                   \<and> list_all2 ?same ys (applyBoosting now (options_of q) ?kept)"
    unfolding applyBoosting_def
    by (rule js_sort_map_rel) (simp add: boost_result_def)
  have plain: "q_boost_recent q \<noteq> Some True \<and> q_boost_preferences q \<noteq> Some True \<longrightarrow>
      results (searchSimilar now q found) = ?kept \<and> \<not> boost_applied (searchSimilar now q found)"
    using flags by (auto simp: searchSimilar_def Let_def t kept)
  have boost: "q_boost_recent q = Some True \<or> q_boost_preferences q = Some True \<longrightarrow>
      (\<exists>ys. mset ys = mset ?kept \<and> list_all2 ?same ys (results (searchSimilar now q found)))
      \<and> boost_applied (searchSimilar now q found)"
    using flags boosted by (simp add: searchSimilar_def Let_def t kept)
  have rest: "total (searchSimilar now q found) = length ?kept
    \<and> total (searchSimilar now q found) = length (results (searchSimilar now q found))
    \<and> threshold_applied (searchSimilar now q found) = t
    \<and> results (searchSimilar now q ([] :: 'a result_scheme list)) = []
    \<and> total (searchSimilar now q ([] :: 'a result_scheme list)) = 0"
    by (simp add: searchSimilar_def Let_def t kept applyBoosting_Nil length_applyBoosting)
  show ?thesis
    using plain boost rest by (intro conjI) simp_all
qed

text \<open>
  A threshold of 0.8 with the boosts switched off drops the hit at 0.75, which the
  default threshold would keep; a threshold of 0.5 with a boost keeps the hit at 0.6,
  which the default threshold would drop.
\<close>

theorem searchSimilar_threshold_cut_witness:
  "similarity_threshold \<lparr>similarity_threshold = Some 0.8, q_boost_recent = Some False,
        q_boost_preferences = None\<rparr> = Some 0.8
   \<and> q_boost_recent \<lparr>similarity_threshold = Some 0.8, q_boost_recent = Some False,
        q_boost_preferences = None\<rparr> \<noteq> Some True
   \<and> q_boost_preferences \<lparr>similarity_threshold = Some 0.8, q_boost_recent = Some False,
        q_boost_preferences = None\<rparr> \<noteq> Some True
   \<and> results (searchSimilar 0
        \<lparr>similarity_threshold = Some 0.8, q_boost_recent = Some False,
         q_boost_preferences = None\<rparr>
        [\<lparr>similarity = Some (Num 0.9), original_similarity = None, created_at = None,
          search_metadata = None\<rparr>,
         \<lparr>similarity = Some (Num 0.75), original_similarity = None, created_at = None,
          search_metadata = None\<rparr>,
         \<lparr>similarity = Some (Num 0.85), original_similarity = None, created_at = None,
          search_metadata = None\<rparr>]) =
       [\<lparr>similarity = Some (Num 0.9), original_similarity = None, created_at = None,
         search_metadata = None\<rparr>,
        \<lparr>similarity = Some (Num 0.85), original_similarity = None, created_at = None,
         search_metadata = None\<rparr>]
   \<and> similarity_threshold \<lparr>similarity_threshold = Some 0.5, q_boost_recent = None,
        q_boost_preferences = Some True\<rparr> = Some 0.5
   \<and> q_boost_preferences \<lparr>similarity_threshold = Some 0.5, q_boost_recent = None,
        q_boost_preferences = Some True\<rparr> = Some True
   \<and> total (searchSimilar 0
        \<lparr>similarity_threshold = Some 0.5, q_boost_recent = None,
         q_boost_preferences = Some True\<rparr>
        [\<lparr>similarity = Some (Num 0.9), original_similarity = None, created_at = None,
          search_metadata = None\<rparr>,
         \<lparr>similarity = Some (Num 0.6), original_similarity = None, created_at = None,
          search_metadata = None\<rparr>,
         \<lparr>similarity = Some (Num 0.4), original_similarity = None, created_at = None,
          search_metadata = None\<rparr>]) = 2
   \<and> similarity_threshold \<lparr>similarity_threshold = None, q_boost_recent = None,
        q_boost_preferences = None\<rparr> = None
   \<and> threshold_applied (searchSimilar 0
        \<lparr>similarity_threshold = None, q_boost_recent = None, q_boost_preferences = None\<rparr>
        ([] :: result list)) = 0.7"
  using searchSimilar_threshold_cut [of
      "\<lparr>similarity_threshold = Some 0.8, q_boost_recent = Some False,
        q_boost_preferences = None\<rparr>"
      "0.8" 0
      "[\<lparr>similarity = Some (Num 0.9), original_similarity = None, created_at = None,
          search_metadata = None\<rparr>,
         \<lparr>similarity = Some (Num 0.75), original_similarity = None, created_at = None,
          search_metadata = None\<rparr>,
         \<lparr>similarity = Some (Num 0.85), original_similarity = None, created_at = None,
          search_metadata = None\<rparr>]", unfolded jge_to_number [symmetric]]
    searchSimilar_threshold_cut [of
      "\<lparr>similarity_threshold = Some 0.5, q_boost_recent = None,
        q_boost_preferences = Some True\<rparr>"
      "0.5" 0
      "[\<lparr>similarity = Some (Num 0.9), original_similarity = None, created_at = None,
          search_metadata = None\<rparr>,
         \<lparr>similarity = Some (Num 0.6), original_similarity = None, created_at = None,
          search_metadata = None\<rparr>,
         \<lparr>similarity = Some (Num 0.4), original_similarity = None, created_at = None,
          search_metadata = None\<rparr>]", unfolded jge_to_number [symmetric]]
    searchSimilar_threshold_cut [of
      "\<lparr>similarity_threshold = None, q_boost_recent = None, q_boost_preferences = None\<rparr>"
      "0.7" 0 "[] :: result list"]
  by simp

lemma jmin_one_not_gt: "\<not> jgt (jmin a (Num 1)) (Num 1)"
  by (cases a) auto

text \<open>
  Claim C3. Whatever the boost flags, the recency weight, the preference alignment and
  the boost factor (also beyond 10), the similarity that the boosting pass reports is
  never greater than 1.0, for a single hit and for every element of the list that
  \<open>applyBoosting\<close> returns.
\<close>

theorem adjusted_similarity_capped:
  fixes r :: "'a result_scheme" and rs :: "'a result_scheme list"
  shows "\<not> jgt (to_number (similarity (boost_result now options r))) (Num 1)
   \<and> (\<forall>b \<in> set (applyBoosting now options rs). \<not> jgt (to_number (similarity b)) (Num 1))"
proof
  show "\<not> jgt (to_number (similarity (boost_result now options r))) (Num 1)"
    by (simp add: similarity_boost_result jmin_one_not_gt)
  show "\<forall>b \<in> set (applyBoosting now options rs). \<not> jgt (to_number (similarity b)) (Num 1)"
    by (auto simp: applyBoosting_def set_js_sort similarity_boost_result jmin_one_not_gt)
qed

theorem adjusted_similarity_capped_witness:
  "\<lparr>similarity = Some (Num 1), original_similarity = Some (Num 0.9), created_at = Some (Num 0),
     search_metadata = Some \<lparr>boost_factor = Some (Num 10), recency_weight = None,
                              user_preference_alignment = Some (Num 1)\<rparr>\<rparr>
   \<in> set (applyBoosting 0 \<lparr>boost_recent = False, boost_preferences = True\<rparr>
        [\<lparr>similarity = Some (Num 0.9), original_similarity = None, created_at = Some (Num 0),
          search_metadata = Some \<lparr>boost_factor = Some (Num 10), recency_weight = None,
                                   user_preference_alignment = Some (Num 1)\<rparr>\<rparr>])
   \<and> \<not> jgt (Num 1) (Num 1)"
  using adjusted_similarity_capped [of 0 "\<lparr>boost_recent = False, boost_preferences = True\<rparr>"
      "\<lparr>similarity = Some (Num 0.9), original_similarity = None, created_at = Some (Num 0),
          search_metadata = Some \<lparr>boost_factor = Some (Num 10), recency_weight = None,
                                   user_preference_alignment = Some (Num 1)\<rparr>\<rparr>"
      "[\<lparr>similarity = Some (Num 0.9), original_similarity = None, created_at = Some (Num 0),
          search_metadata = Some \<lparr>boost_factor = Some (Num 10), recency_weight = None,
                                   user_preference_alignment = Some (Num 1)\<rparr>\<rparr>]"]
  by (simp add: applyBoosting_def js_sort_def boost_result_def adjustedSimilarity_def
      preferenceBoost_def apply_boost_factor_def boost_factor_applies_def metadata_of_def
      or_default_def)

lemma recency_increment_Num:
  assumes "created_at r = Some (Num c)"
    and "or_default (recency_weight (metadata_of r)) 0.5 = Num w"
  shows "recency_increment now r = Num (exp (- 0.1 * ((now - c) / ms_per_day)) * w * 0.1)"
  using assms
  by (simp add: recency_increment_def recencyBoost_def daysSinceCreated_def date_of_def)

lemma or_default_cases:
  "(v = None \<and> w = d) \<or> (v = Some (Num w) \<and> w \<noteq> 0) \<Longrightarrow> or_default v d = Num w"
  by (auto simp: or_default_def)

text \<open>
  Claim C4, as amended. For a hit whose \<open>created_at\<close> is a valid time \<open>c\<close> and whose
  recency weight is absent (then \<open>w = 0.5\<close>) or a non-zero number \<open>w\<close>, the recency
  step adds \<open>exp(-0.1 * age) * w * 0.1\<close>, where \<open>age\<close> is \<open>(now - c)\<close> in days, taken
  as it is and not clamped at 0. With only the recency boost active and no boost factor
  applied, the adjusted score is the raw score plus that amount. When \<open>created_at\<close> is
  not in the future and \<open>w\<close> is not negative, the amount lies between 0 and \<open>0.1 * w\<close>.
\<close>

theorem recency_increment_unclamped:
  assumes "created_at r = Some (Num c)"
    and "(recency_weight (metadata_of r) = None \<and> w = 0.5)
         \<or> (recency_weight (metadata_of r) = Some (Num w) \<and> w \<noteq> 0)"
  shows "recency_increment now r = Num (exp (- 0.1 * ((now - c) / ms_per_day)) * w * 0.1)
    \<and> (boost_recent options \<and> \<not> boost_preferences options \<and> \<not> boost_factor_applies r
         \<and> similarity r = Some (Num s) \<longrightarrow>
       adjustedSimilarity now options r =
         Num (s + exp (- 0.1 * ((now - c) / ms_per_day)) * w * 0.1))
    \<and> (c \<le> now \<and> 0 \<le> w \<longrightarrow>
         0 \<le> exp (- 0.1 * ((now - c) / ms_per_day)) * w * 0.1
         \<and> exp (- 0.1 * ((now - c) / ms_per_day)) * w * 0.1 \<le> 0.1 * w)"
proof -
  have w: "or_default (recency_weight (metadata_of r)) 0.5 = Num w"
    using assms(2) by (rule or_default_cases)
  have inc: "recency_increment now r = Num (exp (- 0.1 * ((now - c) / ms_per_day)) * w * 0.1)"
    using assms(1) w by (rule recency_increment_Num)
  have adj: "boost_recent options \<and> \<not> boost_preferences options \<and> \<not> boost_factor_applies r
         \<and> similarity r = Some (Num s) \<longrightarrow>
       adjustedSimilarity now options r =
         Num (s + exp (- 0.1 * ((now - c) / ms_per_day)) * w * 0.1)"
    by (simp add: adjustedSimilarity_def apply_boost_factor_def inc)
  have range: "0 \<le> exp (- 0.1 * ((now - c) / ms_per_day)) * w * 0.1
         \<and> exp (- 0.1 * ((now - c) / ms_per_day)) * w * 0.1 \<le> 0.1 * w"
    if "c \<le> now" "0 \<le> w"
  proof -
    have "0 \<le> (now - c) / ms_per_day"
      using that(1) by (simp add: ms_per_day_def)
    then have "exp (- 0.1 * ((now - c) / ms_per_day)) \<le> 1"
      by simp
    moreover have "0 \<le> exp (- 0.1 * ((now - c) / ms_per_day))"
      by simp
    ultimately show ?thesis
      using that(2) by (simp add: mult_left_le_one_le)
  qed
  show ?thesis
    using inc adj range by blast
qed

text \<open>A same-day entry with recency weight 0.5 and raw score 0.8 gains 0.05.\<close>

theorem recency_increment_unclamped_witness:
  "created_at \<lparr>similarity = Some (Num 0.8), original_similarity = None, created_at = Some (Num 0),
       search_metadata = Some \<lparr>boost_factor = None, recency_weight = Some (Num 0.5),
                                user_preference_alignment = None\<rparr>\<rparr> = Some (Num 0)
   \<and> recency_weight (metadata_of \<lparr>similarity = Some (Num 0.8), original_similarity = None,
       created_at = Some (Num 0),
       search_metadata = Some \<lparr>boost_factor = None, recency_weight = Some (Num 0.5),
                                user_preference_alignment = None\<rparr>\<rparr>) = Some (Num 0.5)
   \<and> (0.5::real) \<noteq> 0
   \<and> recency_increment 0 \<lparr>similarity = Some (Num 0.8), original_similarity = None,
       created_at = Some (Num 0),
       search_metadata = Some \<lparr>boost_factor = None, recency_weight = Some (Num 0.5),
                                user_preference_alignment = None\<rparr>\<rparr> = Num 0.05
   \<and> adjustedSimilarity 0 \<lparr>boost_recent = True, boost_preferences = False\<rparr>
       \<lparr>similarity = Some (Num 0.8), original_similarity = None,
       created_at = Some (Num 0),
       search_metadata = Some \<lparr>boost_factor = None, recency_weight = Some (Num 0.5),
                                user_preference_alignment = None\<rparr>\<rparr> = Num 0.85"
  using recency_increment_unclamped [of
      "\<lparr>similarity = Some (Num 0.8), original_similarity = None, created_at = Some (Num 0),
        search_metadata = Some \<lparr>boost_factor = None, recency_weight = Some (Num 0.5),
                                 user_preference_alignment = None\<rparr>\<rparr>"
      0 "0.5" 0 "\<lparr>boost_recent = True, boost_preferences = False\<rparr>" "0.8"]
  by (simp add: metadata_of_def boost_factor_applies_def)

text \<open>
  Claim C4 as stated fails: for an entry created one day after \<open>now\<close>, with recency
  weight 1, the age is \<open>-1\<close> day and the amount added is \<open>exp(0.1) * 0.1\<close>, which
  exceeds \<open>0.1 * w\<close>; a clamped age would have given exactly \<open>0.1\<close>.
\<close>

theorem recency_increment_future_counterexample:
  "recency_increment 0 \<lparr>similarity = Some (Num 0.5), original_similarity = None,
       created_at = Some (Num 86400000),
       search_metadata = Some \<lparr>boost_factor = None, recency_weight = Some (Num 1),
                                user_preference_alignment = None\<rparr>\<rparr> = Num (exp (1 / 10) / 10)
   \<and> \<not> exp (1 / 10) / 10 \<le> (0.1::real) * 1"
  by (simp add: recency_increment_def recencyBoost_def daysSinceCreated_def date_of_def
      metadata_of_def or_default_def ms_per_day_def)

lemma jadd_NaN: "jadd a NaN = NaN"
  by (cases a) auto

lemma apply_boost_factor_NaN: "apply_boost_factor r NaN = NaN"
  by (simp add: apply_boost_factor_def)

lemma recency_increment_missing: "created_at r = None \<Longrightarrow> recency_increment now r = NaN"
  by (simp add: recency_increment_def recencyBoost_def daysSinceCreated_def date_of_def)

text \<open>
  Claim C5, as amended. For a hit that carries no \<open>created_at\<close>, ranking with
  \<open>boost_recent\<close> set does not fail and drops no hit, but the similarity it reports is
  \<open>NaN\<close>, whatever the other fields hold; the raw score is still reported as the
  original similarity.
\<close>

theorem missing_created_at_gives_NaN:
  fixes r :: "'a result_scheme" and rs :: "'a result_scheme list"
  assumes "created_at r = None" and "boost_recent options"
  shows "similarity (boost_result now options r) = Some NaN
    \<and> original_similarity (boost_result now options r) = similarity r
    \<and> length (applyBoosting now options rs) = length rs"
proof -
  have "adjustedSimilarity now options r = NaN"
    using assms
    by (simp add: adjustedSimilarity_def recency_increment_missing jadd_NaN
        apply_boost_factor_NaN)
  then show ?thesis
    by (simp add: boost_result_def length_applyBoosting)
qed

text \<open>A hit with raw score 0.8 and no \<open>created_at\<close>.\<close>

theorem missing_created_at_gives_NaN_witness:
  "created_at \<lparr>similarity = Some (Num 0.8), original_similarity = None, created_at = None,
       search_metadata = None\<rparr> = None
   \<and> boost_recent \<lparr>boost_recent = True, boost_preferences = False\<rparr>
   \<and> similarity (boost_result 0 \<lparr>boost_recent = True, boost_preferences = False\<rparr>
       \<lparr>similarity = Some (Num 0.8), original_similarity = None, created_at = None,
        search_metadata = None\<rparr>) = Some NaN"
  using missing_created_at_gives_NaN [of
      "\<lparr>similarity = Some (Num 0.8), original_similarity = None, created_at = None,
        search_metadata = None\<rparr>"
      "\<lparr>boost_recent = True, boost_preferences = False\<rparr>" 0 "[]"]
  by simp

text \<open>
  Claim C5 as stated fails: a hit with raw score 0.9, full search metadata and no
  \<open>created_at\<close> is reported with similarity \<open>NaN\<close>, not with a number.
\<close>

theorem missing_created_at_counterexample:
  "similarity (boost_result 1000 \<lparr>boost_recent = True, boost_preferences = False\<rparr>
       \<lparr>similarity = Some (Num 0.9), original_similarity = None, created_at = None,
        search_metadata = Some \<lparr>boost_factor = Some (Num 1), recency_weight = Some (Num 0.5),
                                 user_preference_alignment = Some (Num 0.5)\<rparr>\<rparr>) = Some NaN"
  by (simp add: boost_result_def adjustedSimilarity_def recency_increment_def recencyBoost_def
      daysSinceCreated_def date_of_def apply_boost_factor_def boost_factor_applies_def
      metadata_of_def)

text \<open>
  Claim C6. The claim asks that a boost factor of 0 be applied and bring the adjusted
  score to 0. On a hit with raw score 0.8, preference alignment 0.5 and boost factor 0,
  ranked with \<open>boost_preferences\<close>, the guard treats the factor as absent and the
  reported similarity is 0.85.
\<close>

theorem boost_factor_zero_not_applied:
  "similarity (boost_result 0 \<lparr>boost_recent = False, boost_preferences = True\<rparr>
       \<lparr>similarity = Some (Num 0.8), original_similarity = None, created_at = Some (Num 0),
        search_metadata = Some \<lparr>boost_factor = Some (Num 0), recency_weight = Some (Num 0.5),
                                 user_preference_alignment = Some (Num 0.5)\<rparr>\<rparr>) = Some (Num 0.85)
   \<and> \<not> boost_factor_applies
       \<lparr>similarity = Some (Num 0.8), original_similarity = None, created_at = Some (Num 0),
        search_metadata = Some \<lparr>boost_factor = Some (Num 0), recency_weight = Some (Num 0.5),
                                 user_preference_alignment = Some (Num 0.5)\<rparr>\<rparr>"
  by (simp add: boost_result_def adjustedSimilarity_def preferenceBoost_def
      apply_boost_factor_def boost_factor_applies_def metadata_of_def or_default_def)

text \<open>For every non-zero factor the multiplication happens exactly when the factor is not 1.\<close>

lemma apply_boost_factor_nonzero:
  "boost_factor (metadata_of r) = Some (Num b) \<Longrightarrow> b \<noteq> 0 \<Longrightarrow>
   apply_boost_factor r a = (if b = 1 then a else jmul a (Num b))"
  by (simp add: apply_boost_factor_def boost_factor_applies_def)


text \<open>
  Claim C10. For every list of hits and every setting of the boost flags,
  \<open>applyBoosting\<close> returns a rearrangement of its input in which each hit keeps every
  field other than the two similarity fields, and reports as original similarity the
  raw similarity of the input hit: some permutation \<open>ys\<close> of the input corresponds to
  the output position by position.
\<close>

theorem applyBoosting_permutation:
  "\<exists>ys. mset ys = mset rs \<and>
     list_all2 (\<lambda>r out. created_at out = created_at r
                      \<and> search_metadata out = search_metadata r
                      \<and> result.more out = result.more r
                      \<and> original_similarity out = similarity r)
       ys (applyBoosting now options rs)"
  unfolding applyBoosting_def
  by (rule js_sort_map_rel) (simp add: boost_result_def)


section \<open>Properties of validation\<close>

lemmas guid_eval = is_guid_def hex_group_def is_hex_def after_bracket_def separator_of_def
  after_separator_def brackets_match_def Let_def

text \<open>The spellings of an identifier that the pattern admits, and some it does not.\<close>

lemma is_guid_spellings:
  "is_guid ''123e4567-e89b-12d3-a456-426614174000''"
  "is_guid ''123e4567e89b12d3a456426614174000''"
  "is_guid ''{123e4567:e89b:12d3:a456:426614174000}''"
  "\<not> is_guid ''{123e4567:e89b:12d3:a456:426614174000]''"
  "\<not> is_guid ''test-user-uuid''"
  "\<not> is_guid ''123e4567-e89b-12d3-a456-4266141740000''"
  by (simp_all add: guid_eval)

lemma update_schema_eq: "updateSemanticSearchSchema = createSemanticSearchSchema"
  unfolding updateSemanticSearchSchema_def createSemanticSearchSchema_def by (rule refl)

lemma converted_simps:
  "converted L k JNull = Inr JNull"
  "converted L k (JBool b) = Inr (JBool b)"
  "converted L k (JNum x) = Inr (JNum x)"
  "converted L k (JArr xs) = Inr (JArr xs)"
  "converted L k (JObj m) = Inr (JObj m)"
  by (simp_all add: converted_def)

lemma violations_object:
  "violations L (SObject children) p (JObj m) =
     concat (map (\<lambda>(k, pres, s).
                         case m k of
                           None \<Rightarrow> if pres = Required then [(p @ [Key k], AnyRequired)] else []
                         | Some x \<Rightarrow> violations L s (p @ [Key k]) x) children)"
  by (simp add: converted_simps)

lemma violations_array:
  "violations L (SArray item pres len mx) p (JArr xs) =
     item_violations (violations L item) p 0 xs
     @ (if pres = Required \<and> no_item_matches (violations L item) p 0 xs
        then [(p, ArrayIncludesRequiredUnknowns)] else [])
     @ (case len of None \<Rightarrow> []
        | Some n \<Rightarrow> if length xs \<noteq> n then [(p, ArrayLength n)] else [])
     @ (case mx of None \<Rightarrow> []
        | Some n \<Rightarrow> if n < length xs then [(p, ArrayMax n)] else [])"
  by (simp add: converted_simps)

lemma violations_number:
  "violations L (SNumber whole mn mx) p (JNum x) = number_checks whole mn mx p (JNum x)"
  by (simp add: converted_simps)

lemma field_violations_subset:
  "(k, pres, s) \<in> set children \<Longrightarrow> m k = Some x \<Longrightarrow>
   set (violations L s (p @ [Key k]) x) \<subseteq> set (violations L (SObject children) p (JObj m))"
proof
  fix v assume a: "(k, pres, s) \<in> set children" "m k = Some x"
    "v \<in> set (violations L s (p @ [Key k]) x)"
  let ?f = "\<lambda>(k, pres, s). case m k of
                      None \<Rightarrow> if pres = Required then [(p @ [Key k], AnyRequired)] else []
                    | Some x \<Rightarrow> violations L s (p @ [Key k]) x"
  have "v \<in> set (?f (k, pres, s))" using a by simp
  then have "v \<in> set (concat (map ?f children))"
    using a(1) by (metis (no_types, lifting) UN_I set_concat set_map image_eqI)
  then show "v \<in> set (violations L (SObject children) p (JObj m))"
    by (simp only: violations_object)
qed

lemma field_missing_violation:
  assumes "(k, Required, s) \<in> set children" and "m k = None"
  shows "(p @ [Key k], AnyRequired) \<in> set (violations L (SObject children) p (JObj m))"
proof -
  let ?f = "\<lambda>(k, pres, s). case m k of
                      None \<Rightarrow> if pres = Required then [(p @ [Key k], AnyRequired)] else []
                    | Some x \<Rightarrow> violations L s (p @ [Key k]) x"
  have "(p @ [Key k], AnyRequired) \<in> set (?f (k, Required, s))"
    using assms(2) by simp
  then have "(p @ [Key k], AnyRequired) \<in> set (concat (map ?f children))"
    using assms(1) by (metis (no_types, lifting) UN_I set_concat set_map image_eqI)
  then show ?thesis
    by (simp only: violations_object)
qed

lemma accepted_field_present:
  assumes "violations L (SObject children) p (JObj m) = []"
    and "(k, pres, s) \<in> set children" and "m k = Some x"
  shows "violations L s (p @ [Key k]) x = []"
proof -
  have "set (violations L s (p @ [Key k]) x)
        \<subseteq> set (violations L (SObject children) p (JObj m))"
    using assms(2,3) by (rule field_violations_subset)
  then have "set (violations L s (p @ [Key k]) x) \<subseteq> set []"
    unfolding assms(1) .
  then show ?thesis
    by (simp del: violations.simps)
qed

lemma accepted_field_required:
  assumes "violations L (SObject children) p (JObj m) = []"
    and "(k, Required, s) \<in> set children"
  shows "\<exists>x. m k = Some x \<and> violations L s (p @ [Key k]) x = []"
proof (cases "m k")
  case None
  have "(p @ [Key k], AnyRequired) \<in> set (violations L (SObject children) p (JObj m))"
    using assms(2) None by (rule field_missing_violation)
  then have "(p @ [Key k], AnyRequired) \<in> set []"
    unfolding assms(1) .
  then show ?thesis
    by simp
next
  case (Some x)
  have "violations L s (p @ [Key k]) x = []"
    using assms Some by (rule accepted_field_present)
  with Some show ?thesis
    by (simp del: violations.simps)
qed

lemma array_length_violation:
  "length xs \<noteq> n \<Longrightarrow>
   (p, ArrayLength n) \<in> set (violations L (SArray item pres (Some n) mx) p (JArr xs))"
  by (simp add: violations_array del: violations.simps)

lemma item_violations_subset:
  "i < length xs \<Longrightarrow>
   set (check (p @ [Index (n + i)]) (xs ! i)) \<subseteq> set (item_violations check p n xs)"
proof (induction xs arbitrary: n i)
  case Nil
  then show ?case by simp
next
  case (Cons x xs)
  show ?case
  proof (cases i)
    case 0
    then show ?thesis by simp
  next
    case (Suc j)
    with Cons.prems have "j < length xs" by simp
    from Cons.IH [OF this, of "Suc n"] Suc show ?thesis by auto
  qed
qed

lemma array_item_violations_subset:
  assumes "i < length xs"
  shows "set (violations L item (p @ [Index i]) (xs ! i))
         \<subseteq> set (violations L (SArray item pres len mx) p (JArr xs))"
  using item_violations_subset [OF assms, of "violations L item" p 0]
  by (auto simp: violations_array simp del: violations.simps)

lemma item_violations_replicate:
  "(\<And>q. check q v = []) \<Longrightarrow> item_violations check p n (replicate k v) = []"
  by (induction k arbitrary: n) simp_all

lemma no_item_matches_replicate:
  "(\<And>q. check q v = []) \<Longrightarrow> no_item_matches check p n (replicate k v) = (k = 0)"
  by (cases k) simp_all

lemma canonical_lookup:
  "obj_of (canonical L (SObject children) (JObj m)) k =
   (case map_of children k of
      None \<Rightarrow> None
    | Some (pres, s) \<Rightarrow> map_option (canonical L s) (m k))"
proof -
  have "foldr (\<lambda>(k, pres, s) acc.
                 case m k of None \<Rightarrow> acc | Some x \<Rightarrow> acc(k \<mapsto> canonical L s x))
              children Map.empty k =
        (case map_of children k of
           None \<Rightarrow> None
         | Some (pres, s) \<Rightarrow> map_option (canonical L s) (m k))"
  proof (induction children)
    case Nil
    show ?case by simp
  next
    case (Cons c cs)
    obtain k' pres s where c: "c = (k', pres, s)" by (cases c) auto
    show ?case
      using Cons by (cases "m k'") (auto simp: c split: option.splits)
  qed
  then show ?thesis
    by (simp add: converted_simps)
qed

lemma mock_accepted:
  assumes "guid L ''123e4567-e89b-12d3-a456-426614174000''"
    and "guid L ''123e4567-e89b-12d3-a456-426614174001''"
    and "guid L ''123e4567-e89b-12d3-a456-426614174002''"
    and "c \<noteq> []" "u \<noteq> []"
    and "0 \<le> b" "b \<le> max_safe_integer" "0 \<le> w" "w \<le> max_safe_integer"
    and "0 \<le> a" "a \<le> max_safe_integer"
  shows "violations L createSemanticSearchSchema []
           (JObj (mockSemanticEntry c u
              [''boost_factor'' \<mapsto> JNum b, ''recency_weight'' \<mapsto> JNum w,
               ''user_preference_alignment'' \<mapsto> JNum a])) = []"
  using assms
  by (simp add: createSemanticSearchSchema_def mockSemanticEntry_def converted_simps
      string_checks_def number_checks_def
      item_violations_replicate no_item_matches_replicate max_safe_integer_def)

lemma example_guids:
  "guid example_library ''123e4567-e89b-12d3-a456-426614174000''"
  "guid example_library ''123e4567-e89b-12d3-a456-426614174001''"
  "guid example_library ''123e4567-e89b-12d3-a456-426614174002''"
  "guid example_library ''123e4567-e89b-12d3-a456-426614174003''"
  by (simp_all add: example_library_def guid_eval)

lemma top_field_violations_subset:
  "(k, pres, s) \<in> set children \<Longrightarrow> m k = Some x \<Longrightarrow>
   set (violations L s [Key k] x) \<subseteq> set (violations L (SObject children) [] (JObj m))"
  using field_violations_subset [of k pres s children m x L "[]"]
  by (simp del: violations.simps)

lemma top_field_missing_violation:
  "(k, Required, s) \<in> set children \<Longrightarrow> m k = None \<Longrightarrow>
   ([Key k], AnyRequired) \<in> set (violations L (SObject children) [] (JObj m))"
  using field_missing_violation [of k s children m "[]" L] by (simp del: violations.simps)

lemma top_accepted_field_required:
  "violations L (SObject children) [] (JObj m) = [] \<Longrightarrow> (k, Required, s) \<in> set children \<Longrightarrow>
   \<exists>x. m k = Some x \<and> violations L s [Key k] x = []"
  using accepted_field_required [of L children "[]" m k s] by (simp del: violations.simps)

lemma embedding_violations_subset:
  "body ''primary_embedding'' = Some x \<Longrightarrow>
   set (violations L (SArray (SNumber False None None) Required (Some 768) None)
          [Key ''primary_embedding''] x)
   \<subseteq> set (violations L createSemanticSearchSchema [] (JObj body))"
  unfolding createSemanticSearchSchema_def
  by (rule top_field_violations_subset [where pres = Required]) simp_all

lemma embedding_missing:
  "body ''primary_embedding'' = None \<Longrightarrow>
   ([Key ''primary_embedding''], AnyRequired)
   \<in> set (violations L createSemanticSearchSchema [] (JObj body))"
  unfolding createSemanticSearchSchema_def
  by (rule top_field_missing_violation
        [where s = "SArray (SNumber False None None) Required (Some 768) None"]) simp_all

lemma embedding_length_violation:
  assumes "body ''primary_embedding'' = Some (JArr xs)" and "length xs \<noteq> 768"
  shows "([Key ''primary_embedding''], ArrayLength 768)
         \<in> set (violations L createSemanticSearchSchema [] (JObj body))"
proof -
  have "([Key ''primary_embedding''], ArrayLength 768)
        \<in> set (violations L (SArray (SNumber False None None) Required (Some 768) None)
                 [Key ''primary_embedding''] (JArr xs))"
    using assms(2) by (rule array_length_violation)
  with embedding_violations_subset [of body "JArr xs" L] assms(1) show ?thesis
    by blast
qed

lemma not_array_violation:
  assumes "\<forall>xs. v \<noteq> JArr xs" and "\<forall>s. v \<noteq> JStr s"
  shows "violations L (SArray item pres len mx) p v = [(p, ArrayBase)]"
  using assms by (cases v) (simp_all add: converted_simps)

lemma not_number_violation:
  assumes "\<forall>r. x \<noteq> JNum r" and "\<forall>s. x \<noteq> JStr s"
  shows "violations L (SNumber whole mn mx) p x = [(p, NumberBase)]"
  using assms by (cases x) (simp_all add: converted_simps number_checks_def)

lemma embedding_rejected:
  assumes "body ''primary_embedding'' = None
     \<or> (\<exists>v. body ''primary_embedding'' = Some v \<and> (\<forall>xs. v \<noteq> JArr xs) \<and> (\<forall>s. v \<noteq> JStr s))
     \<or> (\<exists>xs. body ''primary_embedding'' = Some (JArr xs)
            \<and> (length xs \<noteq> 768
                \<or> (\<exists>x \<in> set xs. (\<forall>r. x \<noteq> JNum r) \<and> (\<forall>s. x \<noteq> JStr s))))"
  shows "violations L createSemanticSearchSchema [] (JObj body) \<noteq> []"
proof -
  let ?S = "SArray (SNumber False None None) Required (Some 768) None"
  let ?p = "[Key ''primary_embedding'']"
  consider (missing) "body ''primary_embedding'' = None"
    | (other) v where "body ''primary_embedding'' = Some v" "\<forall>xs. v \<noteq> JArr xs" "\<forall>s. v \<noteq> JStr s"
    | (len) xs where "body ''primary_embedding'' = Some (JArr xs)" "length xs \<noteq> 768"
    | (item) xs x where "body ''primary_embedding'' = Some (JArr xs)" "x \<in> set xs"
        "\<forall>r. x \<noteq> JNum r" "\<forall>s. x \<noteq> JStr s"
    using assms by auto
  then show ?thesis
  proof cases
    case missing
    from embedding_missing [of body L] missing show ?thesis by auto
  next
    case other
    have "violations L ?S ?p v = [(?p, ArrayBase)]"
      using other(2,3) by (rule not_array_violation)
    with embedding_violations_subset [of body v L] other(1) show ?thesis
      by (auto simp del: violations.simps)
  next
    case len
    from embedding_length_violation [of body xs L] len show ?thesis
      by (auto simp del: violations.simps)
  next
    case item
    from item(2) obtain i where i: "i < length xs" "xs ! i = x"
      by (auto simp: in_set_conv_nth)
    have "violations L (SNumber False None None) (?p @ [Index i]) x = [(?p @ [Index i], NumberBase)]"
      using item(3,4) by (rule not_number_violation)
    with array_item_violations_subset [OF i(1), of L "SNumber False None None" ?p Required
        "Some 768" None] i(2)
    have "(?p @ [Index i], NumberBase) \<in> set (violations L ?S ?p (JArr xs))"
      by (auto simp del: violations.simps)
    with embedding_violations_subset [of body "JArr xs" L] item(1) show ?thesis
      by (auto simp del: violations.simps)
  qed
qed

lemma validate_rejects:
  "violations L schema [] (JObj body) \<noteq> [] \<Longrightarrow>
   validate L schema body = Inl (violations L schema [] (JObj body))"
  by (simp add: validate_def del: violations.simps)

lemma validate_accepts:
  "violations L schema [] (JObj body) = [] \<Longrightarrow>
   validate L schema body = Inr (obj_of (canonical L schema (JObj body)))"
  by (simp add: validate_def del: violations.simps)

lemma validate_Inr:
  assumes "validate L schema body = Inr v"
  shows "violations L schema [] (JObj body) = []"
    and "v = obj_of (canonical L schema (JObj body))"
  using assms
  by (simp_all add: validate_def Let_def split: if_splits del: violations.simps canonical.simps)

lemma post_entries_rejects:
  "violations L createSemanticSearchSchema [] (JObj body) \<noteq> [] \<Longrightarrow>
   post_entries L fresh coll body =
     (coll, Status400 (violations L createSemanticSearchSchema [] (JObj body)))"
  by (simp add: post_entries_def validate_rejects del: violations.simps)

lemma put_entries_rejects:
  "violations L updateSemanticSearchSchema [] (JObj body) \<noteq> [] \<Longrightarrow>
   \<exists>details. put_entries L coll ident body = (coll, Status400 details)"
  by (simp add: put_entries_def validate_rejects split: sum.splits del: violations.simps)

text \<open>
  Claim C8, as amended. For every library, under the create schema and under the
  replacement schema, a payload whose \<open>primary_embedding\<close> is an array of a length
  other than 768 gets a violation at the path \<open>primary_embedding\<close> of type
  \<open>array.length\<close> with limit 768, whatever the elements are. A payload whose
  \<open>primary_embedding\<close> is absent, or is neither an array nor a string, or is an array
  of another length, or is an array holding an element that is neither a number nor a
  string, fails validation; both routes answer 400 and leave the collection as it
  was, so no embedding is cut or padded into acceptance. Strings are left out: what
  becomes of them is the library's conversion.
\<close>

theorem primary_embedding_checked:
  assumes "schema = createSemanticSearchSchema \<or> schema = updateSemanticSearchSchema"
  shows "(\<forall>xs. body ''primary_embedding'' = Some (JArr xs) \<and> length xs \<noteq> 768 \<longrightarrow>
            ([Key ''primary_embedding''], ArrayLength 768)
            \<in> set (violations L schema [] (JObj body)))
    \<and> (body ''primary_embedding'' = None
        \<or> (\<exists>v. body ''primary_embedding'' = Some v
               \<and> (\<forall>xs. v \<noteq> JArr xs) \<and> (\<forall>s. v \<noteq> JStr s))
        \<or> (\<exists>xs. body ''primary_embedding'' = Some (JArr xs)
               \<and> (length xs \<noteq> 768
                   \<or> (\<exists>x \<in> set xs. (\<forall>r. x \<noteq> JNum r) \<and> (\<forall>s. x \<noteq> JStr s)))) \<longrightarrow>
         violations L schema [] (JObj body) \<noteq> []
         \<and> validate L schema body = Inl (violations L schema [] (JObj body))
         \<and> post_entries L fresh coll body =
             (coll, Status400 (violations L createSemanticSearchSchema [] (JObj body)))
         \<and> (\<exists>details. put_entries L coll ident body = (coll, Status400 details)))"
proof -
  have schema: "schema = createSemanticSearchSchema"
    using assms update_schema_eq by auto
  have part1: "\<forall>xs. body ''primary_embedding'' = Some (JArr xs) \<and> length xs \<noteq> 768 \<longrightarrow>
            ([Key ''primary_embedding''], ArrayLength 768)
            \<in> set (violations L schema [] (JObj body))"
    unfolding schema using embedding_length_violation [of body _ L] by blast
  have part2: "violations L schema [] (JObj body) \<noteq> []
         \<and> validate L schema body = Inl (violations L schema [] (JObj body))
         \<and> post_entries L fresh coll body =
             (coll, Status400 (violations L createSemanticSearchSchema [] (JObj body)))
         \<and> (\<exists>details. put_entries L coll ident body = (coll, Status400 details))"
    if bad: "body ''primary_embedding'' = None
        \<or> (\<exists>v. body ''primary_embedding'' = Some v
               \<and> (\<forall>xs. v \<noteq> JArr xs) \<and> (\<forall>s. v \<noteq> JStr s))
        \<or> (\<exists>xs. body ''primary_embedding'' = Some (JArr xs)
               \<and> (length xs \<noteq> 768
                   \<or> (\<exists>x \<in> set xs. (\<forall>r. x \<noteq> JNum r) \<and> (\<forall>s. x \<noteq> JStr s))))"
  proof -
    have v: "violations L createSemanticSearchSchema [] (JObj body) \<noteq> []"
      using bad by (rule embedding_rejected)
    have v': "violations L updateSemanticSearchSchema [] (JObj body) \<noteq> []"
      unfolding update_schema_eq by (rule v)
    have a: "validate L createSemanticSearchSchema body
             = Inl (violations L createSemanticSearchSchema [] (JObj body))"
      using v by (rule validate_rejects)
    have b: "post_entries L fresh coll body =
             (coll, Status400 (violations L createSemanticSearchSchema [] (JObj body)))"
      using v by (rule post_entries_rejects)
    have c: "\<exists>details. put_entries L coll ident body = (coll, Status400 details)"
      using v' by (rule put_entries_rejects)
    show ?thesis
      unfolding schema using v a b c by (intro conjI)
  qed
  show ?thesis
    by (rule conjI [OF part1 impI [OF part2]])
qed

text \<open>The payload of the repository's test: an embedding of three numbers.\<close>

theorem primary_embedding_checked_witness:
  "createSemanticSearchSchema = createSemanticSearchSchema
   \<and> ((mockSemanticEntry ''2025-01-01T00:00:00.000Z'' ''2025-01-01T00:00:00.000Z'' Map.empty)
        (''primary_embedding'' \<mapsto> JArr [JNum 1, JNum 2, JNum 3])) ''primary_embedding''
       = Some (JArr [JNum 1, JNum 2, JNum 3])
   \<and> length [JNum 1, JNum 2, JNum 3] \<noteq> 768
   \<and> ([Key ''primary_embedding''], ArrayLength 768)
       \<in> set (violations example_library createSemanticSearchSchema []
            (JObj ((mockSemanticEntry ''2025-01-01T00:00:00.000Z'' ''2025-01-01T00:00:00.000Z''
                      Map.empty)
                   (''primary_embedding'' \<mapsto> JArr [JNum 1, JNum 2, JNum 3]))))"
  using primary_embedding_checked [of createSemanticSearchSchema
      "(mockSemanticEntry ''2025-01-01T00:00:00.000Z'' ''2025-01-01T00:00:00.000Z'' Map.empty)
        (''primary_embedding'' \<mapsto> JArr [JNum 1, JNum 2, JNum 3])" example_library]
  by (simp del: violations.simps)

text \<open>
  Claim C8 as stated fails: for an otherwise complete payload whose
  \<open>primary_embedding\<close> is the number 5, validation fails with a single violation, the
  type error \<open>array.base\<close>, whose message does not name the length 768.
\<close>

theorem primary_embedding_type_counterexample:
  "violations example_library createSemanticSearchSchema []
     (JObj ((mockSemanticEntry ''2025-01-01T00:00:00.000Z'' ''2025-01-01T00:00:00.000Z''
               [''boost_factor'' \<mapsto> JNum 1, ''recency_weight'' \<mapsto> JNum 0.5,
                ''user_preference_alignment'' \<mapsto> JNum 0.5])
            (''primary_embedding'' \<mapsto> JNum 5)))
   = [([Key ''primary_embedding''], ArrayBase)]"
  by (simp add: createSemanticSearchSchema_def mockSemanticEntry_def converted_simps
      string_checks_def number_checks_def example_guids max_safe_integer_def)

lemma metadata_violations_subset:
  "body ''search_metadata'' = Some x \<Longrightarrow>
   set (violations L (SObject
          [(''boost_factor'', Required, SNumber False (Some 0) None),
           (''recency_weight'', Required, SNumber False (Some 0) None),
           (''user_preference_alignment'', Required, SNumber False (Some 0) None)])
          [Key ''search_metadata''] x)
   \<subseteq> set (violations L createSemanticSearchSchema [] (JObj body))"
  unfolding createSemanticSearchSchema_def
  by (rule top_field_violations_subset [where pres = Optional]) simp_all

lemma metadata_field_violations_subset:
  assumes "f \<in> {''boost_factor'', ''recency_weight'', ''user_preference_alignment''}"
    and "sm f = Some x"
  shows "set (violations L (SNumber False (Some 0) None) [Key ''search_metadata'', Key f] x)
   \<subseteq> set (violations L (SObject
          [(''boost_factor'', Required, SNumber False (Some 0) None),
           (''recency_weight'', Required, SNumber False (Some 0) None),
           (''user_preference_alignment'', Required, SNumber False (Some 0) None)])
          [Key ''search_metadata''] (JObj sm))"
proof -
  have "(f, Required, SNumber False (Some 0) None) \<in> set
          [(''boost_factor'', Required, SNumber False (Some 0) None),
           (''recency_weight'', Required, SNumber False (Some 0) None),
           (''user_preference_alignment'', Required, SNumber False (Some 0) None)]"
    using assms(1) by auto
  with field_violations_subset [of f Required "SNumber False (Some 0) None" _ sm x L
      "[Key ''search_metadata'']"] assms(2)
  show ?thesis by (simp del: violations.simps)
qed

text \<open>
  Claim C7, as amended. For every library, under the create schema and under the
  replacement schema alike, a \<open>search_metadata\<close> in which \<open>boost_factor\<close>,
  \<open>recency_weight\<close> or \<open>user_preference_alignment\<close> is a negative number fails
  validation, and for a value in the safe range the violation is \<open>number.min\<close> with
  limit 0 at the path of that field. No upper bound is declared: a complete payload
  whose identifiers the library accepts and whose three knobs are any non-negative
  numbers up to the largest safe integer is accepted.
\<close>

theorem search_metadata_minimum_checked:
  assumes "schema = createSemanticSearchSchema \<or> schema = updateSemanticSearchSchema"
  shows "(f \<in> {''boost_factor'', ''recency_weight'', ''user_preference_alignment''}
          \<and> body ''search_metadata'' = Some (JObj sm) \<and> sm f = Some (JNum x) \<and> x < 0 \<longrightarrow>
            violations L schema [] (JObj body) \<noteq> []
            \<and> validate L schema body = Inl (violations L schema [] (JObj body))
            \<and> (- max_safe_integer \<le> x \<longrightarrow>
                 ([Key ''search_metadata'', Key f], NumberMin 0)
                 \<in> set (violations L schema [] (JObj body))))
    \<and> (guid L ''123e4567-e89b-12d3-a456-426614174000''
        \<and> guid L ''123e4567-e89b-12d3-a456-426614174001''
        \<and> guid L ''123e4567-e89b-12d3-a456-426614174002''
        \<and> c \<noteq> [] \<and> u \<noteq> [] \<and> 0 \<le> b \<and> b \<le> max_safe_integer \<and> 0 \<le> w \<and> w \<le> max_safe_integer
          \<and> 0 \<le> a \<and> a \<le> max_safe_integer \<longrightarrow>
        validate L schema (mockSemanticEntry c u
              [''boost_factor'' \<mapsto> JNum b, ''recency_weight'' \<mapsto> JNum w,
               ''user_preference_alignment'' \<mapsto> JNum a])
        = Inr (obj_of (canonical L schema (JObj (mockSemanticEntry c u
              [''boost_factor'' \<mapsto> JNum b, ''recency_weight'' \<mapsto> JNum w,
               ''user_preference_alignment'' \<mapsto> JNum a])))))"
proof -
  have schema: "schema = createSemanticSearchSchema"
    using assms update_schema_eq by auto
  have part1: "violations L schema [] (JObj body) \<noteq> []
            \<and> validate L schema body = Inl (violations L schema [] (JObj body))
            \<and> (- max_safe_integer \<le> x \<longrightarrow>
                 ([Key ''search_metadata'', Key f], NumberMin 0)
                 \<in> set (violations L schema [] (JObj body)))"
    if h: "f \<in> {''boost_factor'', ''recency_weight'', ''user_preference_alignment''}
          \<and> body ''search_metadata'' = Some (JObj sm) \<and> sm f = Some (JNum x) \<and> x < 0"
  proof -
    let ?leaf = "violations L (SNumber False (Some 0) None)
                   [Key ''search_metadata'', Key f] (JNum x)"
    have sub: "set ?leaf \<subseteq> set (violations L schema [] (JObj body))"
      unfolding schema
      using metadata_field_violations_subset [of f sm "JNum x" L] h
        metadata_violations_subset [of body "JObj sm" L]
      by blast
    have leaf: "?leaf = (if max_safe_integer < \<bar>x\<bar>
                         then [([Key ''search_metadata'', Key f], NumberUnsafe)]
                         else [([Key ''search_metadata'', Key f], NumberMin 0)])"
      using h by (simp add: converted_simps number_checks_def)
    have nonempty: "violations L schema [] (JObj body) \<noteq> []"
      using sub leaf by (auto simp del: violations.simps split: if_splits)
    have "- max_safe_integer \<le> x \<Longrightarrow> ?leaf = [([Key ''search_metadata'', Key f], NumberMin 0)]"
      using h leaf by (simp del: violations.simps)
    with sub have "- max_safe_integer \<le> x \<longrightarrow>
                 ([Key ''search_metadata'', Key f], NumberMin 0)
                 \<in> set (violations L schema [] (JObj body))"
      by (auto simp del: violations.simps)
    with nonempty validate_rejects [OF nonempty] show ?thesis
      by (intro conjI)
  qed
  have part2: "validate L schema (mockSemanticEntry c u
              [''boost_factor'' \<mapsto> JNum b, ''recency_weight'' \<mapsto> JNum w,
               ''user_preference_alignment'' \<mapsto> JNum a])
        = Inr (obj_of (canonical L schema (JObj (mockSemanticEntry c u
              [''boost_factor'' \<mapsto> JNum b, ''recency_weight'' \<mapsto> JNum w,
               ''user_preference_alignment'' \<mapsto> JNum a]))))"
    if "guid L ''123e4567-e89b-12d3-a456-426614174000''
        \<and> guid L ''123e4567-e89b-12d3-a456-426614174001''
        \<and> guid L ''123e4567-e89b-12d3-a456-426614174002''
        \<and> c \<noteq> [] \<and> u \<noteq> [] \<and> 0 \<le> b \<and> b \<le> max_safe_integer \<and> 0 \<le> w \<and> w \<le> max_safe_integer
          \<and> 0 \<le> a \<and> a \<le> max_safe_integer"
    unfolding schema
    using that by (intro validate_accepts mock_accepted) simp_all
  show ?thesis
    by (rule conjI [OF impI [OF part1] impI [OF part2]])
qed

text \<open>A recency weight of \<open>-0.5\<close> is reported with the minimum 0.\<close>

theorem search_metadata_minimum_checked_witness:
  "createSemanticSearchSchema = createSemanticSearchSchema
   \<and> ''recency_weight'' \<in> {''boost_factor'', ''recency_weight'', ''user_preference_alignment''}
   \<and> (mockSemanticEntry ''2025-01-01T00:00:00.000Z'' ''2025-01-01T00:00:00.000Z''
        [''boost_factor'' \<mapsto> JNum 1, ''recency_weight'' \<mapsto> JNum (- 0.5),
         ''user_preference_alignment'' \<mapsto> JNum 0.5]) ''search_metadata''
       = Some (JObj [''boost_factor'' \<mapsto> JNum 1, ''recency_weight'' \<mapsto> JNum (- 0.5),
                     ''user_preference_alignment'' \<mapsto> JNum 0.5])
   \<and> [''boost_factor'' \<mapsto> JNum 1, ''recency_weight'' \<mapsto> JNum (- 0.5),
       ''user_preference_alignment'' \<mapsto> JNum 0.5] ''recency_weight'' = Some (JNum (- 0.5))
   \<and> (- 0.5 :: real) < 0 \<and> - max_safe_integer \<le> - 0.5
   \<and> ([Key ''search_metadata'', Key ''recency_weight''], NumberMin 0)
       \<in> set (violations example_library createSemanticSearchSchema []
            (JObj (mockSemanticEntry ''2025-01-01T00:00:00.000Z'' ''2025-01-01T00:00:00.000Z''
               [''boost_factor'' \<mapsto> JNum 1, ''recency_weight'' \<mapsto> JNum (- 0.5),
                ''user_preference_alignment'' \<mapsto> JNum 0.5])))"
  using search_metadata_minimum_checked [of createSemanticSearchSchema "''recency_weight''"
      "mockSemanticEntry ''2025-01-01T00:00:00.000Z'' ''2025-01-01T00:00:00.000Z''
        [''boost_factor'' \<mapsto> JNum 1, ''recency_weight'' \<mapsto> JNum (- 0.5),
         ''user_preference_alignment'' \<mapsto> JNum 0.5]"
      "[''boost_factor'' \<mapsto> JNum 1, ''recency_weight'' \<mapsto> JNum (- 0.5),
        ''user_preference_alignment'' \<mapsto> JNum 0.5]"
      "- 0.5" example_library]
  by (simp add: mockSemanticEntry_def max_safe_integer_def del: violations.simps)

text \<open>
  Claim C7 as stated fails: a payload with \<open>boost_factor\<close> 15, \<open>recency_weight\<close> 2
  and \<open>user_preference_alignment\<close> 1.5 passes both schemas without a violation.
\<close>

theorem search_metadata_upper_bound_counterexample:
  "violations example_library createSemanticSearchSchema []
     (JObj (mockSemanticEntry ''2025-01-01T00:00:00.000Z'' ''2025-01-01T00:00:00.000Z''
        [''boost_factor'' \<mapsto> JNum 15, ''recency_weight'' \<mapsto> JNum 2,
         ''user_preference_alignment'' \<mapsto> JNum 1.5])) = []
   \<and> violations example_library updateSemanticSearchSchema []
     (JObj (mockSemanticEntry ''2025-01-01T00:00:00.000Z'' ''2025-01-01T00:00:00.000Z''
        [''boost_factor'' \<mapsto> JNum 15, ''recency_weight'' \<mapsto> JNum 2,
         ''user_preference_alignment'' \<mapsto> JNum 1.5])) = []"
  unfolding update_schema_eq
  by (simp add: mock_accepted example_guids max_safe_integer_def del: violations.simps)


section \<open>Properties of the entry service\<close>

lemma accepted_string:
  "violations L (SString mx uuid) p x = [] \<Longrightarrow> \<exists>s. x = JStr s \<and> s \<noteq> []"
  by (cases x) (auto simp: string_checks_def split: if_splits)

lemma created_at_required:
  assumes "violations L createSemanticSearchSchema [] (JObj body) = []"
  shows "\<exists>c. body ''created_at'' = Some (JStr c) \<and> c \<noteq> []"
proof -
  have "\<exists>x. body ''created_at'' = Some x
          \<and> violations L (SString None False) [Key ''created_at''] x = []"
    using assms unfolding createSemanticSearchSchema_def
    by (rule top_accepted_field_required) simp
  then show ?thesis
    using accepted_string by blast
qed

lemma updated_at_required:
  assumes "violations L createSemanticSearchSchema [] (JObj body) = []"
  shows "\<exists>u. body ''updated_at'' = Some (JStr u) \<and> u \<noteq> []"
proof -
  have "\<exists>x. body ''updated_at'' = Some x
          \<and> violations L (SString None False) [Key ''updated_at''] x = []"
    using assms unfolding createSemanticSearchSchema_def
    by (rule top_accepted_field_required) simp
  then show ?thesis
    using accepted_string by blast
qed

lemma canonical_string: "canonical L (SString mx uuid) = (\<lambda>v. v)"
  by (rule ext) simp

lemma canonical_timestamps:
  "obj_of (canonical L createSemanticSearchSchema (JObj body)) ''created_at'' = body ''created_at''"
  "obj_of (canonical L createSemanticSearchSchema (JObj body)) ''updated_at'' = body ''updated_at''"
  "obj_of (canonical L createSemanticSearchSchema (JObj body)) ''_id'' = None"
  unfolding createSemanticSearchSchema_def canonical_lookup
  by (simp_all add: canonical_string option.map_ident)

lemma findOne_Cons:
  "findOne (d # ds) ident = (if d ''_id'' = Some (JStr ident) then Some d else findOne ds ident)"
  by (simp add: findOne_def)

lemma findOne_identity:
  "findOne coll ident = Some existing \<Longrightarrow> existing ''_id'' = Some (JStr ident)"
  by (induction coll) (simp_all add: findOne_def split: if_splits)

lemma replace_first_found:
  "findOne coll ident = Some existing \<Longrightarrow> doc ''_id'' = Some (JStr ident) \<Longrightarrow>
   snd (replace_first coll ident doc) = 1
   \<and> findOne (fst (replace_first coll ident doc)) ident = Some doc"
proof (induction coll)
  case Nil
  then show ?case by (simp add: findOne_def)
next
  case (Cons d ds)
  then show ?case
    by (cases "d ''_id'' = Some (JStr ident)") (simp_all add: findOne_Cons)
qed

lemma replacementEntry_fields:
  "replacementEntry ident newEntryData existingEntry ''created_at'' = existingEntry ''created_at''"
  "k \<noteq> ''created_at'' \<Longrightarrow> k \<noteq> ''_id'' \<Longrightarrow>
     replacementEntry ident newEntryData existingEntry k = newEntryData k"
  "replacementEntry ident newEntryData existingEntry ''_id'' =
     (case newEntryData ''_id'' of None \<Rightarrow> Some (JStr ident) | Some v \<Rightarrow> Some v)"
  by (simp_all add: replacementEntry_def map_add_def split: option.splits)

lemma updateEntry_found:
  assumes "findOne coll ident = Some existing" and "newEntryData ''_id'' = None"
  shows "updateEntry coll ident newEntryData =
           (fst (replace_first coll ident (replacementEntry ident newEntryData existing)),
            Replaced (Some (replacementEntry ident newEntryData existing)))
         \<and> findOne (fst (replace_first coll ident (replacementEntry ident newEntryData existing)))
               ident = Some (replacementEntry ident newEntryData existing)"
proof -
  have "replacementEntry ident newEntryData existing ''_id'' = Some (JStr ident)"
    using assms(2) by (simp add: replacementEntry_fields)
  with replace_first_found [of coll ident existing "replacementEntry ident newEntryData existing"]
    assms(1)
  show ?thesis
    by (simp add: updateEntry_def replaceOne_def)
qed

lemma post_entries_accepted:
  assumes "post_entries L fresh coll body = (coll', Status201 data)"
  shows "violations L createSemanticSearchSchema [] (JObj body) = []
    \<and> coll' = coll @ [[''_id'' \<mapsto> JStr fresh]
                        ++ obj_of (canonical L createSemanticSearchSchema (JObj body))]"
proof (cases "violations L createSemanticSearchSchema [] (JObj body) = []")
  case True
  with assms show ?thesis
    by (simp add: post_entries_def validate_accepts createEntry_def Let_def
        del: violations.simps canonical.simps)
next
  case False
  with assms show ?thesis
    by (simp add: post_entries_rejects del: violations.simps)
qed

lemma put_entries_accepted:
  assumes "put_entries L coll ident body = (coll', Status200 updated)"
  obtains existing where
    "violations L updateSemanticSearchSchema [] (JObj body) = []"
    "findOne coll ident = Some existing"
    "updated = Some (replacementEntry ident
                (obj_of (canonical L updateSemanticSearchSchema (JObj body))) existing)"
    "findOne coll' ident = updated"
proof -
  let ?v = "obj_of (canonical L updateSemanticSearchSchema (JObj body))"
  have ok: "violations L updateSemanticSearchSchema [] (JObj body) = []"
  proof (rule ccontr)
    assume "violations L updateSemanticSearchSchema [] (JObj body) \<noteq> []"
    from put_entries_rejects [OF this, of coll ident] assms show False
      by auto
  qed
  have noid: "?v ''_id'' = None"
    unfolding update_schema_eq by (rule canonical_timestamps)
  have upd: "(case updateEntry coll ident ?v of
               (c, EntryNotFound) \<Rightarrow> (c, Status404)
             | (c, Replaced e) \<Rightarrow> (c, Status200 e)
             | (c, OutsideModel) \<Rightarrow> (c, NoModelledResponse)) = (coll', Status200 updated)"
    using assms ok
    by (simp add: put_entries_def validate_accepts split: sum.splits
        del: violations.simps canonical.simps)
  show thesis
  proof (cases "findOne coll ident")
    case None
    with upd show ?thesis
      by (simp add: updateEntry_def)
  next
    case (Some existing)
    let ?doc = "replacementEntry ident ?v existing"
    from updateEntry_found [of coll ident existing ?v] Some noid have
      u: "updateEntry coll ident ?v = (fst (replace_first coll ident ?doc), Replaced (Some ?doc))"
      and f: "findOne (fst (replace_first coll ident ?doc)) ident = Some ?doc"
      by simp_all
    from upd u have c: "coll' = fst (replace_first coll ident ?doc)" and d: "updated = Some ?doc"
      by simp_all
    from f c d have "findOne coll' ident = updated"
      by simp
    with ok Some d show ?thesis
      by (rule that)
  qed
qed

text \<open>
  Claim C9, as amended. For every library: when \<open>POST /entries\<close> accepts a body, the
  stored entry carries the body's \<open>created_at\<close> and \<open>updated_at\<close>, both non-empty
  strings. When \<open>PUT /entries/:id\<close> accepts a body, the stored entry carries the
  \<open>created_at\<close> of the entry it replaces, unchanged, and the body's \<open>updated_at\<close>, a
  non-empty string. Nothing relates the two timestamps to one another.
\<close>

theorem accepted_mutation_timestamps:
  "(post_entries L fresh coll body = (coll', Status201 data) \<longrightarrow>
      (\<exists>c u entry. c \<noteq> [] \<and> u \<noteq> []
         \<and> body ''created_at'' = Some (JStr c) \<and> body ''updated_at'' = Some (JStr u)
         \<and> coll' = coll @ [entry]
         \<and> entry ''created_at'' = Some (JStr c) \<and> entry ''updated_at'' = Some (JStr u)))
   \<and> (put_entries L coll ident body = (coll'', Status200 updated) \<longrightarrow>
      (\<exists>existing u doc. findOne coll ident = Some existing \<and> u \<noteq> []
         \<and> body ''updated_at'' = Some (JStr u)
         \<and> updated = Some doc \<and> findOne coll'' ident = Some doc
         \<and> doc ''created_at'' = existing ''created_at''
         \<and> doc ''updated_at'' = Some (JStr u)))"
proof (intro conjI impI)
  assume post: "post_entries L fresh coll body = (coll', Status201 data)"
  let ?entry = "[''_id'' \<mapsto> JStr fresh]
                ++ obj_of (canonical L createSemanticSearchSchema (JObj body))"
  from post_entries_accepted [OF post] have
    ok: "violations L createSemanticSearchSchema [] (JObj body) = []"
    and coll': "coll' = coll @ [?entry]"
    by simp_all
  from created_at_required [OF ok] obtain c where
    c: "body ''created_at'' = Some (JStr c)" "c \<noteq> []"
    by (elim exE conjE)
  from updated_at_required [OF ok] obtain u where
    u: "body ''updated_at'' = Some (JStr u)" "u \<noteq> []"
    by (elim exE conjE)
  have e: "?entry ''created_at'' = Some (JStr c)" "?entry ''updated_at'' = Some (JStr u)"
    using c(1) u(1) by (simp_all add: map_add_def canonical_timestamps del: canonical.simps)
  have "c \<noteq> [] \<and> u \<noteq> []
         \<and> body ''created_at'' = Some (JStr c) \<and> body ''updated_at'' = Some (JStr u)
         \<and> coll' = coll @ [?entry]
         \<and> ?entry ''created_at'' = Some (JStr c) \<and> ?entry ''updated_at'' = Some (JStr u)"
    using c u coll' e by (simp del: canonical.simps)
  then show "\<exists>c u entry. c \<noteq> [] \<and> u \<noteq> []
         \<and> body ''created_at'' = Some (JStr c) \<and> body ''updated_at'' = Some (JStr u)
         \<and> coll' = coll @ [entry]
         \<and> entry ''created_at'' = Some (JStr c) \<and> entry ''updated_at'' = Some (JStr u)"
    by (intro exI)
next
  assume put: "put_entries L coll ident body = (coll'', Status200 updated)"
  let ?v = "obj_of (canonical L updateSemanticSearchSchema (JObj body))"
  from put obtain existing where
    ok: "violations L updateSemanticSearchSchema [] (JObj body) = []"
    and ex: "findOne coll ident = Some existing"
    and upd: "updated = Some (replacementEntry ident ?v existing)"
    and found: "findOne coll'' ident = updated"
    by (rule put_entries_accepted)
  have ok': "violations L createSemanticSearchSchema [] (JObj body) = []"
    using ok unfolding update_schema_eq .
  from updated_at_required [OF ok'] obtain u where
    u: "body ''updated_at'' = Some (JStr u)" "u \<noteq> []"
    by (elim exE conjE)
  let ?doc = "replacementEntry ident ?v existing"
  have d1: "?doc ''created_at'' = existing ''created_at''"
    by (rule replacementEntry_fields)
  have d2: "?doc ''updated_at'' = Some (JStr u)"
    using u(1) unfolding update_schema_eq
    by (simp add: replacementEntry_fields canonical_timestamps del: canonical.simps)
  have "findOne coll ident = Some existing \<and> u \<noteq> []
         \<and> body ''updated_at'' = Some (JStr u)
         \<and> updated = Some ?doc \<and> findOne coll'' ident = Some ?doc
         \<and> ?doc ''created_at'' = existing ''created_at''
         \<and> ?doc ''updated_at'' = Some (JStr u)"
    using ex u upd found d1 d2 by (simp del: canonical.simps)
  then show "\<exists>existing u doc. findOne coll ident = Some existing \<and> u \<noteq> []
         \<and> body ''updated_at'' = Some (JStr u)
         \<and> updated = Some doc \<and> findOne coll'' ident = Some doc
         \<and> doc ''created_at'' = existing ''created_at''
         \<and> doc ''updated_at'' = Some (JStr u)"
    by (intro exI)
qed

text \<open>
  Claim C2. For every library, every existing entry and every replacement payload
  that has passed validation, whatever the request body held for \<open>_id\<close> and
  \<open>created_at\<close>: \<open>updateEntry\<close> replaces the entry by a document whose \<open>_id\<close> is
  the identifier of the existing entry and whose \<open>created_at\<close> is the existing
  entry's; every other field of the document is the payload's. The validated payload
  never carries \<open>_id\<close>, which the schema does not declare, so the spread in the object
  literal cannot override the identifier.
\<close>

theorem updateEntry_keeps_identity:
  assumes "validate L updateSemanticSearchSchema body = Inr newEntryData"
    and "findOne coll ident = Some existingEntry"
  shows "\<exists>coll' doc. updateEntry coll ident newEntryData = (coll', Replaced (Some doc))
          \<and> findOne coll' ident = Some doc
          \<and> doc ''_id'' = Some (JStr ident) \<and> doc ''_id'' = existingEntry ''_id''
          \<and> doc ''created_at'' = existingEntry ''created_at''
          \<and> (\<forall>k. k \<noteq> ''_id'' \<and> k \<noteq> ''created_at'' \<longrightarrow> doc k = newEntryData k)"
proof -
  let ?doc = "replacementEntry ident newEntryData existingEntry"
  let ?coll' = "fst (replace_first coll ident ?doc)"
  have v: "newEntryData = obj_of (canonical L updateSemanticSearchSchema (JObj body))"
    using assms(1) by (rule validate_Inr)
  have noid: "newEntryData ''_id'' = None"
    unfolding v update_schema_eq by (rule canonical_timestamps)
  from updateEntry_found [of coll ident existingEntry newEntryData] assms(2) noid have
    u: "updateEntry coll ident newEntryData = (?coll', Replaced (Some ?doc))"
    and f: "findOne ?coll' ident = Some ?doc"
    by simp_all
  have i: "?doc ''_id'' = Some (JStr ident)"
    using noid by (simp add: replacementEntry_fields)
  have i': "?doc ''_id'' = existingEntry ''_id''"
    using i findOne_identity [OF assms(2)] by simp
  have c: "?doc ''created_at'' = existingEntry ''created_at''"
    by (rule replacementEntry_fields)
  have r: "\<forall>k. k \<noteq> ''_id'' \<and> k \<noteq> ''created_at'' \<longrightarrow> ?doc k = newEntryData k"
    by (simp add: replacementEntry_fields)
  have "updateEntry coll ident newEntryData = (?coll', Replaced (Some ?doc))
          \<and> findOne ?coll' ident = Some ?doc
          \<and> ?doc ''_id'' = Some (JStr ident) \<and> ?doc ''_id'' = existingEntry ''_id''
          \<and> ?doc ''created_at'' = existingEntry ''created_at''
          \<and> (\<forall>k. k \<noteq> ''_id'' \<and> k \<noteq> ''created_at'' \<longrightarrow> ?doc k = newEntryData k)"
    using u f i i' c r by (intro conjI)
  then show ?thesis
    by (intro exI)
qed

lemma violations_undeclared_key:
  assumes "k \<notin> fst ` set children"
  shows "violations L (SObject children) p (JObj (m(k \<mapsto> v)))
         = violations L (SObject children) p (JObj m)"
proof -
  have "map (\<lambda>(k', pres, s).
               case (m(k \<mapsto> v)) k' of
                 None \<Rightarrow> if pres = Required then [(p @ [Key k'], AnyRequired)] else []
               | Some x \<Rightarrow> violations L s (p @ [Key k']) x) children
        = map (\<lambda>(k', pres, s).
               case m k' of
                 None \<Rightarrow> if pres = Required then [(p @ [Key k'], AnyRequired)] else []
               | Some x \<Rightarrow> violations L s (p @ [Key k']) x) children"
  proof (rule map_cong [OF refl])
    fix c assume c: "c \<in> set children"
    obtain k' pres s where e: "c = (k', pres, s)" by (cases c) auto
    with c assms have "k' \<noteq> k" by force
    then show "(case c of (k', pres, s) \<Rightarrow>
               (case (m(k \<mapsto> v)) k' of
                  None \<Rightarrow> if pres = Required then [(p @ [Key k'], AnyRequired)] else []
                | Some x \<Rightarrow> violations L s (p @ [Key k']) x))
            = (case c of (k', pres, s) \<Rightarrow>
               (case m k' of
                  None \<Rightarrow> if pres = Required then [(p @ [Key k'], AnyRequired)] else []
                | Some x \<Rightarrow> violations L s (p @ [Key k']) x))"
      by (simp add: e del: violations.simps)
  qed
  then show ?thesis
    by (simp only: violations_object)
qed

lemma id_undeclared:
  "violations L createSemanticSearchSchema p (JObj (m(''_id'' \<mapsto> v)))
   = violations L createSemanticSearchSchema p (JObj m)"
  unfolding createSemanticSearchSchema_def
  by (rule violations_undeclared_key) simp

lemma params_accepted:
  "guid L ident \<Longrightarrow> ident \<noteq> [] \<Longrightarrow>
   violations L paramsIdSchema [] (JObj [''id'' \<mapsto> JStr ident]) = []"
  by (simp add: paramsIdSchema_def converted_simps string_checks_def)

lemma put_entries_found:
  assumes "guid L ident" and "ident \<noteq> []"
    and "violations L updateSemanticSearchSchema [] (JObj body) = []"
    and "findOne coll ident = Some existing"
  shows "put_entries L coll ident body =
           (fst (replace_first coll ident (replacementEntry ident
                   (obj_of (canonical L updateSemanticSearchSchema (JObj body))) existing)),
            Status200 (Some (replacementEntry ident
                   (obj_of (canonical L updateSemanticSearchSchema (JObj body))) existing)))"
proof -
  let ?v = "obj_of (canonical L updateSemanticSearchSchema (JObj body))"
  have noid: "?v ''_id'' = None"
    unfolding update_schema_eq by (rule canonical_timestamps)
  from updateEntry_found [of coll ident existing ?v] assms(4) noid have
    "updateEntry coll ident ?v =
       (fst (replace_first coll ident (replacementEntry ident ?v existing)),
        Replaced (Some (replacementEntry ident ?v existing)))"
    by simp
  then show ?thesis
    using params_accepted [OF assms(1,2)] assms(3)
    by (simp add: put_entries_def validate_accepts del: violations.simps canonical.simps)
qed

lemma post_entries_created:
  assumes "violations L createSemanticSearchSchema [] (JObj body) = []"
  shows "post_entries L fresh coll body =
           (coll @ [[''_id'' \<mapsto> JStr fresh]
                    ++ obj_of (canonical L createSemanticSearchSchema (JObj body))],
            Status201 (snd (createEntry fresh coll
                    (obj_of (canonical L createSemanticSearchSchema (JObj body))))))"
  using assms
  by (simp add: post_entries_def validate_accepts createEntry_def Let_def
      del: violations.simps canonical.simps)

text \<open>The same through \<open>PUT /entries/:id\<close>.\<close>

lemma put_entries_keeps_identity:
  assumes "put_entries L coll ident body = (coll', Status200 updated)"
  obtains existing doc where "findOne coll ident = Some existing" "updated = Some doc"
    "doc ''_id'' = Some (JStr ident)" "doc ''created_at'' = existing ''created_at''"
proof -
  let ?v = "obj_of (canonical L updateSemanticSearchSchema (JObj body))"
  from assms obtain existing where
    ex: "findOne coll ident = Some existing"
    and upd: "updated = Some (replacementEntry ident ?v existing)"
    by (rule put_entries_accepted)
  have noid: "?v ''_id'' = None"
    unfolding update_schema_eq by (rule canonical_timestamps)
  then have "replacementEntry ident ?v existing ''_id'' = Some (JStr ident)"
    by (simp add: replacementEntry_fields del: canonical.simps)
  moreover have "replacementEntry ident ?v existing ''created_at'' = existing ''created_at''"
    by (rule replacementEntry_fields)
  ultimately show thesis
    using ex upd by (intro that [of existing "replacementEntry ident ?v existing"])
qed

text \<open>
  A request body that carries another \<open>_id\<close> and another \<open>created_at\<close> than the
  entry it replaces.
\<close>

theorem updateEntry_keeps_identity_witness:
  "validate example_library updateSemanticSearchSchema
      ((mockSemanticEntry ''2030-01-01T00:00:00.000Z'' ''2030-01-02T00:00:00.000Z''
          [''boost_factor'' \<mapsto> JNum 1, ''recency_weight'' \<mapsto> JNum 0.5,
           ''user_preference_alignment'' \<mapsto> JNum 0.5])
       (''_id'' \<mapsto> JStr ''123e4567-e89b-12d3-a456-426614174004''))
     = Inr (obj_of (canonical example_library updateSemanticSearchSchema (JObj
         ((mockSemanticEntry ''2030-01-01T00:00:00.000Z'' ''2030-01-02T00:00:00.000Z''
             [''boost_factor'' \<mapsto> JNum 1, ''recency_weight'' \<mapsto> JNum 0.5,
              ''user_preference_alignment'' \<mapsto> JNum 0.5])
          (''_id'' \<mapsto> JStr ''123e4567-e89b-12d3-a456-426614174004'')))))
   \<and> findOne [[''_id'' \<mapsto> JStr ''123e4567-e89b-12d3-a456-426614174003'',
                ''created_at'' \<mapsto> JStr ''2020-01-01T00:00:00.000Z'']]
        ''123e4567-e89b-12d3-a456-426614174003''
      = Some [''_id'' \<mapsto> JStr ''123e4567-e89b-12d3-a456-426614174003'',
              ''created_at'' \<mapsto> JStr ''2020-01-01T00:00:00.000Z'']
   \<and> (\<exists>coll' doc.
         updateEntry [[''_id'' \<mapsto> JStr ''123e4567-e89b-12d3-a456-426614174003'',
                       ''created_at'' \<mapsto> JStr ''2020-01-01T00:00:00.000Z'']]
           ''123e4567-e89b-12d3-a456-426614174003''
           (obj_of (canonical example_library updateSemanticSearchSchema (JObj
              ((mockSemanticEntry ''2030-01-01T00:00:00.000Z'' ''2030-01-02T00:00:00.000Z''
                  [''boost_factor'' \<mapsto> JNum 1, ''recency_weight'' \<mapsto> JNum 0.5,
                   ''user_preference_alignment'' \<mapsto> JNum 0.5])
               (''_id'' \<mapsto> JStr ''123e4567-e89b-12d3-a456-426614174004'')))))
           = (coll', Replaced (Some doc))
         \<and> doc ''_id'' = Some (JStr ''123e4567-e89b-12d3-a456-426614174003'')
         \<and> doc ''created_at'' = Some (JStr ''2020-01-01T00:00:00.000Z''))"
proof -
  let ?body = "(mockSemanticEntry ''2030-01-01T00:00:00.000Z'' ''2030-01-02T00:00:00.000Z''
          [''boost_factor'' \<mapsto> JNum 1, ''recency_weight'' \<mapsto> JNum 0.5,
           ''user_preference_alignment'' \<mapsto> JNum 0.5])
       (''_id'' \<mapsto> JStr ''123e4567-e89b-12d3-a456-426614174004'')"
  let ?old = "[''_id'' \<mapsto> JStr ''123e4567-e89b-12d3-a456-426614174003'',
               ''created_at'' \<mapsto> JStr ''2020-01-01T00:00:00.000Z'']"
  let ?ident = "''123e4567-e89b-12d3-a456-426614174003''"
  let ?v = "obj_of (canonical example_library updateSemanticSearchSchema (JObj ?body))"
  have ok: "violations example_library updateSemanticSearchSchema [] (JObj ?body) = []"
    unfolding update_schema_eq id_undeclared
    by (rule mock_accepted) (simp_all add: example_guids max_safe_integer_def)
  have valid: "validate example_library updateSemanticSearchSchema ?body = Inr ?v"
    using ok by (rule validate_accepts)
  have found: "findOne [?old] ?ident = Some ?old"
    by (simp add: findOne_def)
  from updateEntry_keeps_identity [of example_library ?body ?v "[?old]" ?ident ?old,
      OF valid found]
  obtain coll' doc where
    "updateEntry [?old] ?ident ?v = (coll', Replaced (Some doc))"
    "doc ''_id'' = Some (JStr ?ident)"
    "doc ''created_at'' = ?old ''created_at''"
    by (elim exE conjE)
  then have "updateEntry [?old] ?ident ?v = (coll', Replaced (Some doc))
         \<and> doc ''_id'' = Some (JStr ?ident)
         \<and> doc ''created_at'' = Some (JStr ''2020-01-01T00:00:00.000Z'')"
    by simp
  then have "\<exists>coll' doc. updateEntry [?old] ?ident ?v = (coll', Replaced (Some doc))
         \<and> doc ''_id'' = Some (JStr ?ident)
         \<and> doc ''created_at'' = Some (JStr ''2020-01-01T00:00:00.000Z'')"
    by (intro exI)
  with valid found show ?thesis
    by (intro conjI)
qed

text \<open>
  Claim C9 as stated fails: a complete body whose \<open>created_at\<close> is one day later than
  its \<open>updated_at\<close> is accepted by \<open>POST /entries\<close> and stored with both values as
  sent.
\<close>

theorem timestamps_unordered_counterexample:
  "length (fst (post_entries example_library ''123e4567-e89b-12d3-a456-426614174003'' []
      (mockSemanticEntry ''2025-01-02T00:00:00.000Z'' ''2025-01-01T00:00:00.000Z''
         [''boost_factor'' \<mapsto> JNum 1, ''recency_weight'' \<mapsto> JNum 0.5,
          ''user_preference_alignment'' \<mapsto> JNum 0.5]))) = 1
   \<and> hd (fst (post_entries example_library ''123e4567-e89b-12d3-a456-426614174003'' []
      (mockSemanticEntry ''2025-01-02T00:00:00.000Z'' ''2025-01-01T00:00:00.000Z''
         [''boost_factor'' \<mapsto> JNum 1, ''recency_weight'' \<mapsto> JNum 0.5,
          ''user_preference_alignment'' \<mapsto> JNum 0.5]))) ''created_at''
       = Some (JStr ''2025-01-02T00:00:00.000Z'')
   \<and> hd (fst (post_entries example_library ''123e4567-e89b-12d3-a456-426614174003'' []
      (mockSemanticEntry ''2025-01-02T00:00:00.000Z'' ''2025-01-01T00:00:00.000Z''
         [''boost_factor'' \<mapsto> JNum 1, ''recency_weight'' \<mapsto> JNum 0.5,
          ''user_preference_alignment'' \<mapsto> JNum 0.5]))) ''updated_at''
       = Some (JStr ''2025-01-01T00:00:00.000Z'')
   \<and> \<not> timestamp_le ''2025-01-02T00:00:00.000Z'' ''2025-01-01T00:00:00.000Z''"
proof -
  let ?body = "mockSemanticEntry ''2025-01-02T00:00:00.000Z'' ''2025-01-01T00:00:00.000Z''
         [''boost_factor'' \<mapsto> JNum 1, ''recency_weight'' \<mapsto> JNum 0.5,
          ''user_preference_alignment'' \<mapsto> JNum 0.5]"
  have ok: "violations example_library createSemanticSearchSchema [] (JObj ?body) = []"
    by (rule mock_accepted) (simp_all add: example_guids max_safe_integer_def)
  have ts: "?body ''created_at'' = Some (JStr ''2025-01-02T00:00:00.000Z'')"
    "?body ''updated_at'' = Some (JStr ''2025-01-01T00:00:00.000Z'')"
    by (simp_all add: mockSemanticEntry_def)
  have order: "\<not> timestamp_le ''2025-01-02T00:00:00.000Z'' ''2025-01-01T00:00:00.000Z''"
    by simp
  show ?thesis
    unfolding post_entries_created [OF ok]
    using ts order
    by (simp add: map_add_def canonical_timestamps
        del: violations.simps canonical.simps timestamp_le.simps)
qed


text \<open>A body accepted by both routes, created on one day and updated on the next.\<close>

theorem accepted_mutation_timestamps_witness:
  "post_entries example_library ''123e4567-e89b-12d3-a456-426614174003'' []
      (mockSemanticEntry ''2025-01-01T00:00:00.000Z'' ''2025-01-02T00:00:00.000Z''
         [''boost_factor'' \<mapsto> JNum 1, ''recency_weight'' \<mapsto> JNum 0.5,
          ''user_preference_alignment'' \<mapsto> JNum 0.5])
     = ([] @ [[''_id'' \<mapsto> JStr ''123e4567-e89b-12d3-a456-426614174003'']
              ++ obj_of (canonical example_library createSemanticSearchSchema (JObj
                   (mockSemanticEntry ''2025-01-01T00:00:00.000Z'' ''2025-01-02T00:00:00.000Z''
                      [''boost_factor'' \<mapsto> JNum 1, ''recency_weight'' \<mapsto> JNum 0.5,
                       ''user_preference_alignment'' \<mapsto> JNum 0.5])))],
        Status201 (snd (createEntry ''123e4567-e89b-12d3-a456-426614174003'' []
           (obj_of (canonical example_library createSemanticSearchSchema (JObj
              (mockSemanticEntry ''2025-01-01T00:00:00.000Z'' ''2025-01-02T00:00:00.000Z''
                 [''boost_factor'' \<mapsto> JNum 1, ''recency_weight'' \<mapsto> JNum 0.5,
                  ''user_preference_alignment'' \<mapsto> JNum 0.5])))))))
   \<and> (\<exists>c u entry. c \<noteq> [] \<and> u \<noteq> []
         \<and> mockSemanticEntry ''2025-01-01T00:00:00.000Z'' ''2025-01-02T00:00:00.000Z''
              [''boost_factor'' \<mapsto> JNum 1, ''recency_weight'' \<mapsto> JNum 0.5,
               ''user_preference_alignment'' \<mapsto> JNum 0.5] ''created_at'' = Some (JStr c)
         \<and> mockSemanticEntry ''2025-01-01T00:00:00.000Z'' ''2025-01-02T00:00:00.000Z''
              [''boost_factor'' \<mapsto> JNum 1, ''recency_weight'' \<mapsto> JNum 0.5,
               ''user_preference_alignment'' \<mapsto> JNum 0.5] ''updated_at'' = Some (JStr u)
         \<and> [] @ [[''_id'' \<mapsto> JStr ''123e4567-e89b-12d3-a456-426614174003'']
              ++ obj_of (canonical example_library createSemanticSearchSchema (JObj
                   (mockSemanticEntry ''2025-01-01T00:00:00.000Z'' ''2025-01-02T00:00:00.000Z''
                      [''boost_factor'' \<mapsto> JNum 1, ''recency_weight'' \<mapsto> JNum 0.5,
                       ''user_preference_alignment'' \<mapsto> JNum 0.5])))] = [] @ [entry]
         \<and> entry ''created_at'' = Some (JStr c) \<and> entry ''updated_at'' = Some (JStr u))
   \<and> put_entries example_library
        [[''_id'' \<mapsto> JStr ''123e4567-e89b-12d3-a456-426614174003'',
          ''created_at'' \<mapsto> JStr ''2020-01-01T00:00:00.000Z'']]
        ''123e4567-e89b-12d3-a456-426614174003''
        (mockSemanticEntry ''2025-01-01T00:00:00.000Z'' ''2025-01-02T00:00:00.000Z''
           [''boost_factor'' \<mapsto> JNum 1, ''recency_weight'' \<mapsto> JNum 0.5,
            ''user_preference_alignment'' \<mapsto> JNum 0.5])
     = (fst (replace_first
          [[''_id'' \<mapsto> JStr ''123e4567-e89b-12d3-a456-426614174003'',
            ''created_at'' \<mapsto> JStr ''2020-01-01T00:00:00.000Z'']]
          ''123e4567-e89b-12d3-a456-426614174003''
          (replacementEntry ''123e4567-e89b-12d3-a456-426614174003''
             (obj_of (canonical example_library updateSemanticSearchSchema (JObj
                (mockSemanticEntry ''2025-01-01T00:00:00.000Z'' ''2025-01-02T00:00:00.000Z''
                   [''boost_factor'' \<mapsto> JNum 1, ''recency_weight'' \<mapsto> JNum 0.5,
                    ''user_preference_alignment'' \<mapsto> JNum 0.5]))))
             [''_id'' \<mapsto> JStr ''123e4567-e89b-12d3-a456-426614174003'',
              ''created_at'' \<mapsto> JStr ''2020-01-01T00:00:00.000Z''])),
        Status200 (Some
          (replacementEntry ''123e4567-e89b-12d3-a456-426614174003''
             (obj_of (canonical example_library updateSemanticSearchSchema (JObj
                (mockSemanticEntry ''2025-01-01T00:00:00.000Z'' ''2025-01-02T00:00:00.000Z''
                   [''boost_factor'' \<mapsto> JNum 1, ''recency_weight'' \<mapsto> JNum 0.5,
                    ''user_preference_alignment'' \<mapsto> JNum 0.5]))))
             [''_id'' \<mapsto> JStr ''123e4567-e89b-12d3-a456-426614174003'',
              ''created_at'' \<mapsto> JStr ''2020-01-01T00:00:00.000Z''])))
   \<and> (\<exists>existing u doc.
         findOne [[''_id'' \<mapsto> JStr ''123e4567-e89b-12d3-a456-426614174003'',
                   ''created_at'' \<mapsto> JStr ''2020-01-01T00:00:00.000Z'']]
           ''123e4567-e89b-12d3-a456-426614174003'' = Some existing
         \<and> u \<noteq> []
         \<and> doc ''created_at'' = existing ''created_at''
         \<and> doc ''updated_at'' = Some (JStr u))"
proof -
  let ?old = "[''_id'' \<mapsto> JStr ''123e4567-e89b-12d3-a456-426614174003'',
               ''created_at'' \<mapsto> JStr ''2020-01-01T00:00:00.000Z'']"
  let ?body = "mockSemanticEntry ''2025-01-01T00:00:00.000Z'' ''2025-01-02T00:00:00.000Z''
         [''boost_factor'' \<mapsto> JNum 1, ''recency_weight'' \<mapsto> JNum 0.5,
          ''user_preference_alignment'' \<mapsto> JNum 0.5]"
  let ?fresh = "''123e4567-e89b-12d3-a456-426614174003''"
  let ?coll' = "[] @ [[''_id'' \<mapsto> JStr ?fresh]
                       ++ obj_of (canonical example_library createSemanticSearchSchema (JObj ?body))]"
  let ?data = "snd (createEntry ?fresh []
                  (obj_of (canonical example_library createSemanticSearchSchema (JObj ?body))))"
  have ok: "violations example_library createSemanticSearchSchema [] (JObj ?body) = []"
    by (rule mock_accepted) (simp_all add: example_guids max_safe_integer_def)
  have post: "post_entries example_library ?fresh [] ?body = (?coll', Status201 ?data)"
    by (rule post_entries_created [OF ok])
  have "\<exists>c u entry. c \<noteq> [] \<and> u \<noteq> []
         \<and> ?body ''created_at'' = Some (JStr c) \<and> ?body ''updated_at'' = Some (JStr u)
         \<and> ?coll' = [] @ [entry]
         \<and> entry ''created_at'' = Some (JStr c) \<and> entry ''updated_at'' = Some (JStr u)"
    by (rule accepted_mutation_timestamps [of example_library ?fresh "[]" ?body ?coll' ?data,
          THEN conjunct1, THEN mp]) (rule post)
  note created = this
  let ?doc = "replacementEntry ?fresh
                (obj_of (canonical example_library updateSemanticSearchSchema (JObj ?body))) ?old"
  let ?coll'' = "fst (replace_first [?old] ?fresh ?doc)"
  have guid: "guid example_library ?fresh" "?fresh \<noteq> []"
    by (simp_all add: example_guids)
  have ok': "violations example_library updateSemanticSearchSchema [] (JObj ?body) = []"
    unfolding update_schema_eq by (rule ok)
  have found: "findOne [?old] ?fresh = Some ?old"
    by (simp add: findOne_def)
  have put: "put_entries example_library [?old] ?fresh ?body = (?coll'', Status200 (Some ?doc))"
    using guid ok' found by (rule put_entries_found)
  have "\<exists>existing u doc. findOne [?old] ?fresh = Some existing \<and> u \<noteq> []
         \<and> ?body ''updated_at'' = Some (JStr u)
         \<and> Some ?doc = Some doc \<and> findOne ?coll'' ?fresh = Some doc
         \<and> doc ''created_at'' = existing ''created_at''
         \<and> doc ''updated_at'' = Some (JStr u)"
    by (rule accepted_mutation_timestamps [of example_library _ "[?old]" ?body _ _ ?fresh ?coll'' "Some ?doc",
          THEN conjunct2, THEN mp]) (rule put)
  then have replaced: "\<exists>existing u doc. findOne [?old] ?fresh = Some existing \<and> u \<noteq> []
         \<and> doc ''created_at'' = existing ''created_at''
         \<and> doc ''updated_at'' = Some (JStr u)"
    by (elim exE conjE) (intro exI conjI)
  from post created put replaced show ?thesis
    by (intro conjI)
qed

end
